theory Spec2Isabelle
  imports Main
begin

section \<open>The wire protocol of the unpacker: \<^verbatim>\<open>unpacker/js/request.js\<close>\<close>

text \<open>
  The JavaScript module \<^verbatim>\<open>request\<close> defines the key names and operation codes of the protocol
  between the JavaScript front end and the NaCl engine, and seven constructors that build
  the messages the front end sends. The development below embeds the module function by
  function and proves the statements of the specification about it.
\<close>

subsection \<open>JavaScript values\<close>

text \<open>
  The values the constructors receive and store. Numbers of the protocol are request ids,
  sizes, byte offsets and lengths, which are integers. A number of JavaScript is a double:
  \<open>JSNumber n\<close> is the Number value for the integer \<open>n\<close>, that is \<open>n\<close> itself when a double
  holds it, as it holds every safe integer (of magnitude below \<open>2\<^sup>5\<^sup>3\<close>), and the double
  nearest to \<open>n\<close> otherwise, as a numeric literal is read. Fractions and \<^verbatim>\<open>NaN\<close>, which no id,
  size, offset or length is, have no value here.
  An \<^verbatim>\<open>ArrayBuffer\<close> is its sequence of bytes (\<open>char\<close> is the 8-bit type of HOL). A
  plain object (a dictionary, as the metadata of an archive is) lists its own properties.
\<close>

type_synonym byte = char

datatype jsvalue =
    JSUndefined
  | JSNull
  | JSBoolean bool
  | JSNumber int
  | JSString string
  | JSArrayBuffer "byte list"
  | JSObject "(string \<times> jsvalue) list"

text \<open>The one exception the module can raise: a method call on a value that has no such method.\<close>

datatype exception = TypeError

subsection \<open>\<^verbatim>\<open>toString\<close>\<close>

text \<open>The decimal digits of a number from 0, most significant first.\<close>

definition digit_char :: "nat \<Rightarrow> char" where
  "digit_char d = ''0123456789'' ! d"

function nat_toString :: "nat \<Rightarrow> string" where
  "nat_toString n =
     (if n < 10 then [digit_char n] else nat_toString (n div 10) @ [digit_char (n mod 10)])"
  by pat_completeness auto
termination
  by (relation "measure (\<lambda>n. n)") auto

declare nat_toString.simps [simp del]

text \<open>
  Modelled from the spec: the decimal string of an integer, as the specification has the
  numbers on the wire (section 6): its digits, after a minus sign when it is negative. It
  is what the strings that \<^verbatim>\<open>toString\<close> makes in the code are compared with.
\<close>

definition decimal_string :: "int \<Rightarrow> string" where
  "decimal_string n =
     (if n < 0 then CHR ''-'' # nat_toString (nat (- n)) else nat_toString (nat n))"

text \<open>\<^verbatim>\<open>Number.isSafeInteger\<close>: the integers of magnitude at most \<open>2\<^sup>5\<^sup>3 - 1\<close>.\<close>

definition isSafeInteger :: "int \<Rightarrow> bool" where
  "isSafeInteger n = (\<bar>n\<bar> \<le> 2 ^ 53 - 1)"

text \<open>
  The Number value for an integer \<open>m\<close> from 0: a double has 53 significant bits, so the bits
  of \<open>m\<close> beyond 53 (\<open>excess m\<close> of them) are rounded off, to the nearest double and to the
  even one of two that are equally near.
\<close>

function excess :: "nat \<Rightarrow> nat" where
  "excess m = (if m < 2 ^ 53 then 0 else Suc (excess (m div 2)))"
  by pat_completeness auto
termination
  by (relation "measure (\<lambda>m. m)") auto

declare excess.simps [simp del]

definition double_of :: "nat \<Rightarrow> nat" where
  "double_of m =
     (if m < 2 ^ 53 then m
      else
        (let e = excess m; q = m div 2 ^ e; r = m mod 2 ^ e; half = 2 ^ (e - 1)
         in if half < r \<or> (r = half \<and> odd q) then (q + 1) * 2 ^ e else q * 2 ^ e))"

text \<open>
  \<^verbatim>\<open>Number::toString\<close> of ECMAScript prints the shortest digits \<open>s\<close> such that \<open>s\<close> times a
  power of ten is read back as the same double \<open>x\<close>; of several it takes the value nearest
  to \<open>x\<close>, and of two equally near the even \<open>s\<close>. With \<open>k\<close> digits and \<open>p\<close> the power of ten,
  the multiples of \<open>p\<close> that can qualify are the two around \<open>x\<close>.
\<close>

definition candidates :: "nat \<Rightarrow> nat \<Rightarrow> nat list" where
  "candidates x p = filter (\<lambda>c. double_of c = x) [x div p * p, (x div p + 1) * p]"

definition closest :: "nat \<Rightarrow> nat \<Rightarrow> nat list \<Rightarrow> nat" where
  "closest x p cs =
     (case cs of
        [] \<Rightarrow> x
      | [c] \<Rightarrow> c
      | c1 # c2 # _ \<Rightarrow>
          if x - c1 < c2 - x then c1
          else if c2 - x < x - c1 then c2
          else if even (c1 div p) then c1 else c2)"

text \<open>
  The value the printed digits stand for: the first number of \<open>k\<close> significant digits,
  \<open>k\<close> from 1, that is read back as \<open>x\<close>; \<open>x\<close> itself when only all of its digits do.
\<close>

definition shortest :: "nat \<Rightarrow> nat" where
  "shortest x =
     (let d = length (nat_toString x)
      in case find (\<lambda>k. candidates x (10 ^ (d - k)) \<noteq> []) [1..<d] of
           None \<Rightarrow> x
         | Some k \<Rightarrow> closest x (10 ^ (d - k)) (candidates x (10 ^ (d - k))))"

text \<open>
  A value of more than 21 digits is printed with an exponent: its significant digits (those
  before the trailing zeros), a point after the first when there are several, and
  \<^verbatim>\<open>e+\<close> with the number of digits that follow the first.
\<close>

definition significant :: "string \<Rightarrow> string" where
  "significant s = rev (dropWhile (\<lambda>c. c = CHR ''0'') (rev s))"

definition exponential :: "string \<Rightarrow> string" where
  "exponential s =
     (let m = significant s
      in (if length m = 1 then m else hd m # CHR ''.'' # tl m) @ ''e+'' @
         nat_toString (length s - 1))"

text \<open>
  \<^verbatim>\<open>Number.prototype.toString\<close> on the Number value for an integer: \<^verbatim>\<open>Infinity\<close> from
  \<open>2\<^sup>1\<^sup>0\<^sup>2\<^sup>4\<close> on, where the doubles end; otherwise the shortest digits, in full up to 21
  digits and with an exponent beyond; after a minus sign when the number is negative.
\<close>

definition magnitude_toString :: "nat \<Rightarrow> string" where
  "magnitude_toString m =
     (let x = double_of m
      in if 2 ^ 1024 \<le> x then ''Infinity''
         else
           (let s = nat_toString (shortest x)
            in if length s \<le> 21 then s else exponential s))"

definition Number_toString :: "int \<Rightarrow> string" where
  "Number_toString n =
     (if n < 0 then CHR ''-'' # magnitude_toString (nat (- n))
      else magnitude_toString (nat n))"

text \<open>
  The call \<^verbatim>\<open>v.toString()\<close>. It throws on \<^verbatim>\<open>undefined\<close> and \<^verbatim>\<open>null\<close>, which have no
  properties, and on an object whose own property \<^verbatim>\<open>toString\<close> hides the inherited method
  (no value of \<open>jsvalue\<close> is a function). A string is its own rendering.
\<close>

fun toString :: "jsvalue \<Rightarrow> exception + string" where
  "toString JSUndefined = Inl TypeError"
| "toString JSNull = Inl TypeError"
| "toString (JSBoolean b) = Inr (if b then ''true'' else ''false'')"
| "toString (JSNumber n) = Inr (Number_toString n)"
| "toString (JSString s) = Inr s"
| "toString (JSArrayBuffer b) = Inr ''[object ArrayBuffer]''"
| "toString (JSObject ps) =
     (case map_of ps ''toString'' of
        None \<Rightarrow> Inr ''[object Object]''
      | Some f \<Rightarrow> Inl TypeError)"

subsection \<open>The module object: \<^verbatim>\<open>request.Key\<close> and \<^verbatim>\<open>request.Operation\<close>\<close>

text \<open>The property names of \<^verbatim>\<open>request.Key\<close>, in the order of the source.\<close>

datatype Key =
    OPERATION
  | FILE_SYSTEM_ID
  | REQUEST_ID
  | ERROR
  | METADATA
  | ARCHIVE_SIZE
  | CHUNK_BUFFER
  | OFFSET
  | LENGTH
  | FILE_PATH
  | OPEN_REQUEST_ID
  | READ_FILE_DATA
  | HAS_MORE_DATA

text \<open>The property names of \<^verbatim>\<open>request.Operation\<close>, in the order of the source.\<close>

datatype Operation =
    READ_METADATA
  | READ_METADATA_DONE
  | READ_CHUNK
  | READ_CHUNK_DONE
  | READ_CHUNK_ERROR
  | CLOSE_VOLUME
  | OPEN_FILE
  | OPEN_FILE_DONE
  | CLOSE_FILE
  | CLOSE_FILE_DONE
  | READ_FILE
  | READ_FILE_DONE
  | FILE_SYSTEM_ERROR

text \<open>
  \<^verbatim>\<open>request\<close> is a global object of the page, and its tables \<^verbatim>\<open>Key\<close> and \<^verbatim>\<open>Operation\<close> are
  ordinary mutable properties that every constructor reads again at each call. The
  state of the module is therefore the pair of tables; every function of the module takes
  it and returns it.
\<close>

record request_module =
  Key :: "Key \<Rightarrow> string"
  Operation :: "Operation \<Rightarrow> int"

fun Key_init :: "Key \<Rightarrow> string" where
  "Key_init OPERATION = ''operation''"
| "Key_init FILE_SYSTEM_ID = ''file_system_id''"
| "Key_init REQUEST_ID = ''request_id''"
| "Key_init ERROR = ''error''"
| "Key_init METADATA = ''metadata''"
| "Key_init ARCHIVE_SIZE = ''archive_size''"
| "Key_init CHUNK_BUFFER = ''chunk_buffer''"
| "Key_init OFFSET = ''offset''"
| "Key_init LENGTH = ''length''"
| "Key_init FILE_PATH = ''file_path''"
| "Key_init OPEN_REQUEST_ID = ''open_request_id''"
| "Key_init READ_FILE_DATA = ''read_file_data''"
| "Key_init HAS_MORE_DATA = ''has_more_data''"

fun Operation_init :: "Operation \<Rightarrow> int" where
  "Operation_init READ_METADATA = 0"
| "Operation_init READ_METADATA_DONE = 1"
| "Operation_init READ_CHUNK = 2"
| "Operation_init READ_CHUNK_DONE = 3"
| "Operation_init READ_CHUNK_ERROR = 4"
| "Operation_init CLOSE_VOLUME = 5"
| "Operation_init OPEN_FILE = 6"
| "Operation_init OPEN_FILE_DONE = 7"
| "Operation_init CLOSE_FILE = 8"
| "Operation_init CLOSE_FILE_DONE = 9"
| "Operation_init READ_FILE = 10"
| "Operation_init READ_FILE_DONE = 11"
| "Operation_init FILE_SYSTEM_ERROR = - 1"

text \<open>The module as the source's object literal creates it.\<close>

definition request :: request_module where
  "request = \<lparr>Key = Key_init, Operation = Operation_init\<rparr>"

subsection \<open>The constructors\<close>

text \<open>
  An envelope is a fresh object: a finite map from property names to values. A
  constructor returns the envelope, or the exception it threw, together with the module.
\<close>

type_synonym envelope = "string \<rightharpoonup> jsvalue"

type_synonym 'a completion = "(exception + 'a) \<times> request_module"

text \<open>
  \<^verbatim>\<open>createBasic_\<close> (the trailing underscore of the source's name, which marks the function
  private, is not part of an Isabelle name).
\<close>

definition createBasic ::
  "request_module \<Rightarrow> jsvalue \<Rightarrow> jsvalue \<Rightarrow> jsvalue \<Rightarrow> envelope completion" where
  "createBasic rq operation fileSystemId requestId =
     (let basicRequest = Map.empty;
          basicRequest = basicRequest(Key rq OPERATION \<mapsto> operation);
          basicRequest = basicRequest(Key rq FILE_SYSTEM_ID \<mapsto> fileSystemId)
      in case toString requestId of
           Inl e \<Rightarrow> (Inl e, rq)
         | Inr s \<Rightarrow> (Inr (basicRequest(Key rq REQUEST_ID \<mapsto> JSString s)), rq))"

definition createReadMetadataRequest ::
  "request_module \<Rightarrow> jsvalue \<Rightarrow> jsvalue \<Rightarrow> jsvalue \<Rightarrow> envelope completion" where
  "createReadMetadataRequest rq fileSystemId requestId archiveSize =
     (case createBasic rq (JSNumber (Operation rq READ_METADATA)) fileSystemId requestId of
        (Inl e, rq1) \<Rightarrow> (Inl e, rq1)
      | (Inr readMetadataRequest, rq1) \<Rightarrow>
          (case toString archiveSize of
             Inl e \<Rightarrow> (Inl e, rq1)
           | Inr s \<Rightarrow>
               (Inr (readMetadataRequest(Key rq1 ARCHIVE_SIZE \<mapsto> JSString s)), rq1)))"

definition createReadChunkDoneResponse ::
  "request_module \<Rightarrow> jsvalue \<Rightarrow> jsvalue \<Rightarrow> jsvalue \<Rightarrow> envelope completion" where
  "createReadChunkDoneResponse rq fileSystemId requestId buffer =
     (case createBasic rq (JSNumber (Operation rq READ_CHUNK_DONE)) fileSystemId requestId of
        (Inl e, rq1) \<Rightarrow> (Inl e, rq1)
      | (Inr response, rq1) \<Rightarrow> (Inr (response(Key rq1 CHUNK_BUFFER \<mapsto> buffer)), rq1))"

definition createReadChunkErrorResponse ::
  "request_module \<Rightarrow> jsvalue \<Rightarrow> jsvalue \<Rightarrow> envelope completion" where
  "createReadChunkErrorResponse rq fileSystemId requestId =
     createBasic rq (JSNumber (Operation rq READ_CHUNK_ERROR)) fileSystemId requestId"

definition createCloseVolumeRequest ::
  "request_module \<Rightarrow> jsvalue \<Rightarrow> envelope completion" where
  "createCloseVolumeRequest rq fileSystemId =
     createBasic rq (JSNumber (Operation rq CLOSE_VOLUME)) fileSystemId (JSNumber (- 1))"

definition createOpenFileRequest ::
  "request_module \<Rightarrow> jsvalue \<Rightarrow> jsvalue \<Rightarrow> jsvalue \<Rightarrow> jsvalue \<Rightarrow> envelope completion" where
  "createOpenFileRequest rq fileSystemId requestId filePath archiveSize =
     (case createBasic rq (JSNumber (Operation rq OPEN_FILE)) fileSystemId requestId of
        (Inl e, rq1) \<Rightarrow> (Inl e, rq1)
      | (Inr openFileRequest, rq1) \<Rightarrow>
          (let openFileRequest = openFileRequest(Key rq1 FILE_PATH \<mapsto> filePath)
           in case toString archiveSize of
                Inl e \<Rightarrow> (Inl e, rq1)
              | Inr s \<Rightarrow>
                  (Inr (openFileRequest(Key rq1 ARCHIVE_SIZE \<mapsto> JSString s)), rq1)))"

definition createCloseFileRequest ::
  "request_module \<Rightarrow> jsvalue \<Rightarrow> jsvalue \<Rightarrow> jsvalue \<Rightarrow> envelope completion" where
  "createCloseFileRequest rq fileSystemId requestId openRequestId =
     (case createBasic rq (JSNumber (Operation rq CLOSE_FILE)) fileSystemId requestId of
        (Inl e, rq1) \<Rightarrow> (Inl e, rq1)
      | (Inr closeFileRequest, rq1) \<Rightarrow>
          (case toString openRequestId of
             Inl e \<Rightarrow> (Inl e, rq1)
           | Inr s \<Rightarrow>
               (Inr (closeFileRequest(Key rq1 OPEN_REQUEST_ID \<mapsto> JSString s)), rq1)))"

definition createReadFileRequest ::
  "request_module \<Rightarrow> jsvalue \<Rightarrow> jsvalue \<Rightarrow> jsvalue \<Rightarrow> jsvalue \<Rightarrow> jsvalue \<Rightarrow>
     envelope completion" where
  "createReadFileRequest rq fileSystemId requestId openRequestId offset length' =
     (case createBasic rq (JSNumber (Operation rq READ_FILE)) fileSystemId requestId of
        (Inl e, rq1) \<Rightarrow> (Inl e, rq1)
      | (Inr readFileRequest, rq1) \<Rightarrow>
          (case toString openRequestId of
             Inl e \<Rightarrow> (Inl e, rq1)
           | Inr s \<Rightarrow>
               (let readFileRequest = readFileRequest(Key rq1 OPEN_REQUEST_ID \<mapsto> JSString s)
                in case toString offset of
                     Inl e \<Rightarrow> (Inl e, rq1)
                   | Inr t \<Rightarrow>
                       (let readFileRequest = readFileRequest(Key rq1 OFFSET \<mapsto> JSString t)
                        in (Inr (readFileRequest(Key rq1 LENGTH \<mapsto> length')), rq1)))))"

subsection \<open>Sequences of calls\<close>

text \<open>
  A call of one of the module's functions with its arguments, and what a page does with the
  module: one call after another, each on the module the call before it left.
\<close>

datatype call =
    CreateBasic jsvalue jsvalue jsvalue
  | CreateReadMetadataRequest jsvalue jsvalue jsvalue
  | CreateReadChunkDoneResponse jsvalue jsvalue jsvalue
  | CreateReadChunkErrorResponse jsvalue jsvalue
  | CreateCloseVolumeRequest jsvalue
  | CreateOpenFileRequest jsvalue jsvalue jsvalue jsvalue
  | CreateCloseFileRequest jsvalue jsvalue jsvalue
  | CreateReadFileRequest jsvalue jsvalue jsvalue jsvalue jsvalue

fun invoke :: "request_module \<Rightarrow> call \<Rightarrow> envelope completion" where
  "invoke rq (CreateBasic operation fileSystemId requestId) =
     createBasic rq operation fileSystemId requestId"
| "invoke rq (CreateReadMetadataRequest fileSystemId requestId archiveSize) =
     createReadMetadataRequest rq fileSystemId requestId archiveSize"
| "invoke rq (CreateReadChunkDoneResponse fileSystemId requestId buffer) =
     createReadChunkDoneResponse rq fileSystemId requestId buffer"
| "invoke rq (CreateReadChunkErrorResponse fileSystemId requestId) =
     createReadChunkErrorResponse rq fileSystemId requestId"
| "invoke rq (CreateCloseVolumeRequest fileSystemId) =
     createCloseVolumeRequest rq fileSystemId"
| "invoke rq (CreateOpenFileRequest fileSystemId requestId filePath archiveSize) =
     createOpenFileRequest rq fileSystemId requestId filePath archiveSize"
| "invoke rq (CreateCloseFileRequest fileSystemId requestId openRequestId) =
     createCloseFileRequest rq fileSystemId requestId openRequestId"
| "invoke rq (CreateReadFileRequest fileSystemId requestId openRequestId offset length') =
     createReadFileRequest rq fileSystemId requestId openRequestId offset length'"

fun invoke_all ::
  "request_module \<Rightarrow> call list \<Rightarrow> (exception + envelope) list \<times> request_module" where
  "invoke_all rq [] = ([], rq)"
| "invoke_all rq (c # cs) =
     (case invoke rq c of
        (r, rq1) \<Rightarrow> (case invoke_all rq1 cs of (rs, rq2) \<Rightarrow> (r # rs, rq2)))"

text \<open>The part of an envelope under the three mandatory keys.\<close>

definition mandatory_part :: "request_module \<Rightarrow> envelope \<Rightarrow> envelope" where
  "mandatory_part rq env =
     env |` {Key rq OPERATION, Key rq FILE_SYSTEM_ID, Key rq REQUEST_ID}"

subsection \<open>The names of the operations\<close>

text \<open>
  The identifiers of \<^verbatim>\<open>request.Operation\<close> as the source spells them. The protocol names the
  answer to a request by the suffix \<^verbatim>\<open>_DONE\<close>: \<open>done_operation\<close> looks the answer of an
  operation up among the identifiers of the enumeration.
\<close>

definition Operation_all :: "Operation list" where
  "Operation_all =
     [READ_METADATA, READ_METADATA_DONE, READ_CHUNK, READ_CHUNK_DONE, READ_CHUNK_ERROR,
      CLOSE_VOLUME, OPEN_FILE, OPEN_FILE_DONE, CLOSE_FILE, CLOSE_FILE_DONE, READ_FILE,
      READ_FILE_DONE, FILE_SYSTEM_ERROR]"

fun Operation_name :: "Operation \<Rightarrow> string" where
  "Operation_name READ_METADATA = ''READ_METADATA''"
| "Operation_name READ_METADATA_DONE = ''READ_METADATA_DONE''"
| "Operation_name READ_CHUNK = ''READ_CHUNK''"
| "Operation_name READ_CHUNK_DONE = ''READ_CHUNK_DONE''"
| "Operation_name READ_CHUNK_ERROR = ''READ_CHUNK_ERROR''"
| "Operation_name CLOSE_VOLUME = ''CLOSE_VOLUME''"
| "Operation_name OPEN_FILE = ''OPEN_FILE''"
| "Operation_name OPEN_FILE_DONE = ''OPEN_FILE_DONE''"
| "Operation_name CLOSE_FILE = ''CLOSE_FILE''"
| "Operation_name CLOSE_FILE_DONE = ''CLOSE_FILE_DONE''"
| "Operation_name READ_FILE = ''READ_FILE''"
| "Operation_name READ_FILE_DONE = ''READ_FILE_DONE''"
| "Operation_name FILE_SYSTEM_ERROR = ''FILE_SYSTEM_ERROR''"

definition done_operation :: "Operation \<Rightarrow> Operation option" where
  "done_operation op =
     find (\<lambda>d. Operation_name d = Operation_name op @ ''_DONE'') Operation_all"

section \<open>The message codec of the specification\<close>

text \<open>
  \<^verbatim>\<open>request.js\<close> holds the front end's encoders only. The decoder, and the encoders of the
  messages the engine sends, belong to other files of the repository (the NaCl side,
  \<^verbatim>\<open>cpp/request.h\<close>, and the JavaScript that receives the engine's messages); section 4.1
  and the table of section 6 of the specification describe them.
\<close>

text \<open>
  Modelled from the spec: the error taxonomy of section 7.
\<close>

datatype protocol_error =
    MalformedMessage
  | UnknownOperation
  | ProtocolViolation
  | InvalidSession
  | InvalidHandle
  | SourceReadError
  | OutOfRange

text \<open>
  Modelled from the spec: the typed value of a message, one constructor per Operation with
  the fields of the table of section 6 after the file system id and the request id
  (close-volume has no request id of its own: \<open>-1\<close> is reserved for it). Request ids are
  integers; archive sizes, offsets and lengths are integers from 0.
\<close>

datatype message =
    ReadMetadata string int nat
  | ReadMetadataDone string int "(string \<times> jsvalue) list"
  | ReadChunk string int nat nat
  | ReadChunkDone string int "byte list"
  | ReadChunkError string int
  | CloseVolume string
  | OpenFile string int string nat
  | OpenFileDone string int
  | CloseFile string int int
  | CloseFileDone string int
  | ReadFile string int int nat nat
  | ReadFileDone string int "byte list" bool
  | FileSystemError string int string



















section \<open>The volume session of the specification\<close>

text \<open>
  Modelled from the spec: the states of a file handle (section 4.5).
\<close>

datatype handle_state = Opening | Open | Closing | Closed

text \<open>
  Modelled from the spec: the file handle of section 3.
\<close>

record FileHandle =
  openRequestId :: int
  path :: string
  state :: handle_state

text \<open>
  Modelled from the spec: the states of a volume session (section 4.4).
\<close>

datatype session_state = AwaitingMetadata | Ready | Closed

text \<open>
  Modelled from the spec: the volume session of section 3, with its state of section 4.4
  (\<open>lifecycle\<close>).
\<close>

record VolumeSession =
  session_id :: string
  archiveSize :: nat
  metadataLoaded :: bool
  openHandles :: "int \<rightharpoonup> FileHandle"
  pendingChunkRequest :: "int option"
  lifecycle :: session_state

text \<open>
  Modelled from the spec: the session that the first read-metadata request for a file system
  id creates, with the archive size the request carries (sections 3 and 4.4).
\<close>

definition create_session :: "string \<Rightarrow> nat \<Rightarrow> VolumeSession" where
  "create_session fs a =
     \<lparr>session_id = fs, archiveSize = a, metadataLoaded = False, openHandles = Map.empty,
      pendingChunkRequest = None, lifecycle = AwaitingMetadata\<rparr>"

text \<open>
  Modelled from the spec: the file system id of a message, which names its session.
\<close>

fun file_system_of :: "message \<Rightarrow> string" where
  "file_system_of (ReadMetadata fs r a) = fs"
| "file_system_of (ReadMetadataDone fs r md) = fs"
| "file_system_of (ReadChunk fs r off len) = fs"
| "file_system_of (ReadChunkDone fs r buf) = fs"
| "file_system_of (ReadChunkError fs r) = fs"
| "file_system_of (CloseVolume fs) = fs"
| "file_system_of (OpenFile fs r p a) = fs"
| "file_system_of (OpenFileDone fs r) = fs"
| "file_system_of (CloseFile fs r opn) = fs"
| "file_system_of (CloseFileDone fs r) = fs"
| "file_system_of (ReadFile fs r opn off len) = fs"
| "file_system_of (ReadFileDone fs r buf hasMore) = fs"
| "file_system_of (FileSystemError fs r err) = fs"

text \<open>
  Modelled from the spec: close-volume is the one message a Closed session accepts
  (section 4.4).
\<close>

fun is_close_volume :: "message \<Rightarrow> bool" where
  "is_close_volume (CloseVolume fs) = True"
| "is_close_volume m = False"

text \<open>
  Modelled from the spec: the session has a handle under the open request id \<open>opn\<close>, and it
  is in the state \<open>st\<close> (invariant 3.c).
\<close>

definition handle_in :: "VolumeSession \<Rightarrow> int \<Rightarrow> handle_state \<Rightarrow> bool" where
  "handle_in s opn st = (case openHandles s opn of None \<Rightarrow> False | Some h \<Rightarrow> state h = st)"

text \<open>
  Modelled from the spec: what a session does with a message addressed to it (sections 4.4
  to 4.6 and 7): the outcome is the session after the message, or the error that refuses
  the message and leaves the session as it was. One rule per sentence of the spec:
  \<^item> a message to a Closed session fails with InvalidSession; close-volume is accepted in
    every state, releases the handles and cancels what is pending;
  \<^item> read-metadata-done moves a session that awaits its metadata to Ready;
  \<^item> a read-chunk pull while another is pending is a ProtocolViolation; one beyond the
    archive size is OutOfRange; otherwise it becomes the pending pull, until its
    read-chunk-done or read-chunk-error arrives; an answer to a pull that is not pending is
    a ProtocolViolation;
  \<^item> a Ready session accepts open-file (the handle is created Opening, keyed by the id of
    the request; the archive size of the session stays), open-file-done (Opening to Open),
    read-file and close-file on an Open handle (InvalidHandle otherwise), and refuses a
    read-file beyond the archive size with OutOfRange.
  The messages whose handling rests on the correlation registry alone (read-metadata on an
  existing session, read-file-done, close-file-done, file-system-error) have no rule.
\<close>

inductive session_step :: "VolumeSession \<Rightarrow> message \<Rightarrow> protocol_error + VolumeSession \<Rightarrow> bool" where
  closed:
    "lifecycle s = Closed \<Longrightarrow> file_system_of m = session_id s \<Longrightarrow> \<not> is_close_volume m \<Longrightarrow>
     session_step s m (Inl InvalidSession)"
| close_volume:
    "session_step s (CloseVolume (session_id s))
       (Inr (s\<lparr>openHandles := Map.empty, pendingChunkRequest := None, lifecycle := Closed\<rparr>))"
| metadata_done:
    "lifecycle s = AwaitingMetadata \<Longrightarrow>
     session_step s (ReadMetadataDone (session_id s) r md)
       (Inr (s\<lparr>metadataLoaded := True, lifecycle := Ready\<rparr>))"
| pull_second:
    "lifecycle s \<noteq> Closed \<Longrightarrow> pendingChunkRequest s = Some p \<Longrightarrow>
     session_step s (ReadChunk (session_id s) r off len) (Inl ProtocolViolation)"
| pull_out_of_range:
    "lifecycle s \<noteq> Closed \<Longrightarrow> pendingChunkRequest s = None \<Longrightarrow> archiveSize s < off + len \<Longrightarrow>
     session_step s (ReadChunk (session_id s) r off len) (Inl OutOfRange)"
| pull:
    "lifecycle s \<noteq> Closed \<Longrightarrow> pendingChunkRequest s = None \<Longrightarrow> off + len \<le> archiveSize s \<Longrightarrow>
     session_step s (ReadChunk (session_id s) r off len)
       (Inr (s\<lparr>pendingChunkRequest := Some r\<rparr>))"
| pull_done:
    "lifecycle s \<noteq> Closed \<Longrightarrow> pendingChunkRequest s = Some r \<Longrightarrow>
     session_step s (ReadChunkDone (session_id s) r buf) (Inr (s\<lparr>pendingChunkRequest := None\<rparr>))"
| pull_error:
    "lifecycle s \<noteq> Closed \<Longrightarrow> pendingChunkRequest s = Some r \<Longrightarrow>
     session_step s (ReadChunkError (session_id s) r) (Inr (s\<lparr>pendingChunkRequest := None\<rparr>))"
| pull_done_unknown:
    "lifecycle s \<noteq> Closed \<Longrightarrow> pendingChunkRequest s \<noteq> Some r \<Longrightarrow>
     session_step s (ReadChunkDone (session_id s) r buf) (Inl ProtocolViolation)"
| pull_error_unknown:
    "lifecycle s \<noteq> Closed \<Longrightarrow> pendingChunkRequest s \<noteq> Some r \<Longrightarrow>
     session_step s (ReadChunkError (session_id s) r) (Inl ProtocolViolation)"
| open_file:
    "lifecycle s = Ready \<Longrightarrow>
     session_step s (OpenFile (session_id s) r p a)
       (Inr (s\<lparr>openHandles :=
               (openHandles s)(r \<mapsto> \<lparr>openRequestId = r, path = p, state = Opening\<rparr>)\<rparr>))"
| open_file_done:
    "lifecycle s = Ready \<Longrightarrow> openHandles s r = Some h \<Longrightarrow> state h = Opening \<Longrightarrow>
     session_step s (OpenFileDone (session_id s) r)
       (Inr (s\<lparr>openHandles := (openHandles s)(r \<mapsto> h\<lparr>state := Open\<rparr>)\<rparr>))"
| read_file:
    "lifecycle s = Ready \<Longrightarrow> handle_in s opn Open \<Longrightarrow> off + len \<le> archiveSize s \<Longrightarrow>
     session_step s (ReadFile (session_id s) r opn off len) (Inr s)"
| read_file_out_of_range:
    "lifecycle s = Ready \<Longrightarrow> handle_in s opn Open \<Longrightarrow> archiveSize s < off + len \<Longrightarrow>
     session_step s (ReadFile (session_id s) r opn off len) (Inl OutOfRange)"
| read_file_invalid_handle:
    "lifecycle s = Ready \<Longrightarrow> \<not> handle_in s opn Open \<Longrightarrow>
     session_step s (ReadFile (session_id s) r opn off len) (Inl InvalidHandle)"
| close_file:
    "lifecycle s = Ready \<Longrightarrow> openHandles s opn = Some h \<Longrightarrow> state h = Open \<Longrightarrow>
     session_step s (CloseFile (session_id s) r opn)
       (Inr (s\<lparr>openHandles := (openHandles s)(opn \<mapsto> h\<lparr>state := Closing\<rparr>)\<rparr>))"
| close_file_invalid_handle:
    "lifecycle s = Ready \<Longrightarrow> \<not> handle_in s opn Open \<Longrightarrow>
     session_step s (CloseFile (session_id s) r opn) (Inl InvalidHandle)"

text \<open>
  Modelled from the spec: the messages a session accepts one after another, oldest first,
  and the session they leave.
\<close>

inductive session_run :: "VolumeSession \<Rightarrow> message list \<Rightarrow> VolumeSession \<Rightarrow> bool" where
  finished: "session_run s [] s"
| accepted: "session_step s m (Inr s1) \<Longrightarrow> session_run s1 ms s2 \<Longrightarrow> session_run s (m # ms) s2"

text \<open>
  Modelled from the spec: the number of unanswered read-chunk pulls after one more accepted
  message: a pull adds one, its read-chunk-done or read-chunk-error takes one away, and
  close-volume cancels what is pending (sections 4.4 and 4.6).
\<close>

fun after_message :: "int \<Rightarrow> message \<Rightarrow> int" where
  "after_message n (ReadChunk fs r off len) = n + 1"
| "after_message n (ReadChunkDone fs r buf) = n - 1"
| "after_message n (ReadChunkError fs r) = n - 1"
| "after_message n (CloseVolume fs) = 0"
| "after_message n m = n"

text \<open>
  Modelled from the spec: the read-chunk pulls of an accepted sequence that are outstanding
  at its end (invariant 3.b).
\<close>

definition outstanding_pulls :: "message list \<Rightarrow> int" where
  "outstanding_pulls ms = foldl after_message 0 ms"

text \<open>
  Modelled from the spec: the byte range a read-chunk or read-file message asks for, offset
  and length (invariant 3.d).
\<close>

fun requested_range :: "message \<Rightarrow> (nat \<times> nat) option" where
  "requested_range (ReadChunk fs r off len) = Some (off, len)"
| "requested_range (ReadFile fs r opn off len) = Some (off, len)"
| "requested_range m = None"

text \<open>
  Modelled from the spec: the invariant of the chunk gate (invariant 3.b). A Closed session
  has no pending pull, and the \<open>n\<close> unanswered pulls are none when nothing is pending and one
  otherwise.
\<close>

definition gate_ok :: "VolumeSession \<Rightarrow> int \<Rightarrow> bool" where
  "gate_ok s n =
     ((lifecycle s = Closed \<longrightarrow> pendingChunkRequest s = None) \<and>
      n = (if pendingChunkRequest s = None then 0 else 1))"

code_pred session_step .

section \<open>Properties of the constructors\<close>

subsection \<open>Digits\<close>

lemma nat_toString_digit: "n < 10 \<Longrightarrow> nat_toString n = [digit_char n]"
  by (simp add: nat_toString.simps)

subsection \<open>Printing a safe integer\<close>

lemma excess_bounds:
  "2 ^ 53 \<le> m \<Longrightarrow> 0 < excess m \<and> 2 ^ 52 \<le> m div 2 ^ excess m"
proof (induction m rule: excess.induct)
  case (1 m)
  show ?case
  proof (cases "m div 2 < 2 ^ 53")
    case True
    then have "excess (m div 2) = 0"
      by (simp add: excess.simps)
    with "1.prems" show ?thesis
      by (subst (1 2) excess.simps) simp
  next
    case False
    with "1.IH" "1.prems" have "2 ^ 52 \<le> m div 2 div 2 ^ excess (m div 2)"
      by simp
    with "1.prems" show ?thesis
      by (subst (1 2) excess.simps) (simp add: div_mult2_eq)
  qed
qed

lemma double_of_safe: "m < 2 ^ 53 \<Longrightarrow> double_of m = m"
  by (simp add: double_of_def)

lemma double_of_large: "2 ^ 53 \<le> m \<Longrightarrow> 2 ^ 53 \<le> double_of m"
proof -
  assume m: "2 ^ 53 \<le> m"
  let ?e = "excess m"
  let ?q = "m div 2 ^ ?e"
  from excess_bounds [OF m] have e: "0 < ?e" and q: "2 ^ 52 \<le> ?q"
    by simp_all
  from e have "(2::nat) ^ 1 \<le> 2 ^ ?e"
    by (intro power_increasing) simp_all
  with q have "(2::nat) ^ 52 * 2 ^ 1 \<le> ?q * 2 ^ ?e"
    by (intro mult_le_mono)
  then have a: "(2::nat) ^ 53 \<le> ?q * 2 ^ ?e"
    by simp
  then have b: "(2::nat) ^ 53 \<le> (?q + 1) * 2 ^ ?e"
    by (simp add: algebra_simps)
  from m a b show ?thesis
    by (simp add: double_of_def Let_def)
qed

lemma candidates_safe: "x < 2 ^ 53 \<Longrightarrow> c \<in> set (candidates x p) \<Longrightarrow> c = x"
proof -
  assume x: "x < 2 ^ 53" and "c \<in> set (candidates x p)"
  then have "c \<in> set (filter (\<lambda>c. double_of c = x) [x div p * p, (x div p + 1) * p])"
    by (simp only: candidates_def)
  then have c: "double_of c = x"
    by (simp only: set_filter mem_Collect_eq)
  show "c = x"
  proof (cases "c < 2 ^ 53")
    case True
    with c show ?thesis using double_of_safe [of c] by simp
  next
    case False
    then have "2 ^ 53 \<le> double_of c"
      using double_of_large [of c] by simp
    with c x show ?thesis by simp
  qed
qed

lemma closest_same: "\<forall>c\<in>set cs. c = x \<Longrightarrow> closest x p cs = x"
  by (cases cs; cases "tl cs") (auto simp: closest_def)

lemma shortest_safe: "x < 2 ^ 53 \<Longrightarrow> shortest x = x"
  by (auto simp: shortest_def Let_def closest_same candidates_safe split: option.split)

lemma length_nat_toString: "0 < k \<Longrightarrow> m < 10 ^ k \<Longrightarrow> length (nat_toString m) \<le> k"
proof (induction m arbitrary: k rule: nat_toString.induct)
  case (1 n)
  show ?case
  proof (cases "n < 10")
    case True
    with "1.prems" show ?thesis
      by (subst nat_toString.simps) simp
  next
    case False
    with "1.prems" obtain j where k: "k = Suc j" and j: "0 < j"
      by (cases k; cases "k - 1") auto
    with "1.prems" have "n div 10 < 10 ^ j"
      by (simp add: less_mult_imp_div_less mult.commute)
    with "1.IH" [OF False j] have "length (nat_toString (n div 10)) \<le> j"
      by simp
    with False k show ?thesis
      by (subst nat_toString.simps) simp
  qed
qed

lemma magnitude_toString_safe: "m < 2 ^ 53 \<Longrightarrow> magnitude_toString m = nat_toString m"
proof -
  assume m: "m < 2 ^ 53"
  then have "m < 10 ^ 21"
    by simp
  then have "length (nat_toString m) \<le> 21"
    by (intro length_nat_toString) simp_all
  moreover from m have "m < 2 ^ 1024"
    by simp
  ultimately show ?thesis
    using m by (simp add: magnitude_toString_def double_of_safe shortest_safe)
qed

text \<open>On a safe integer, \<^verbatim>\<open>Number.prototype.toString\<close> is the decimal string.\<close>

lemma Number_toString_safe: "isSafeInteger n \<Longrightarrow> Number_toString n = decimal_string n"
proof -
  assume "isSafeInteger n"
  then have "nat (- n) < 2 ^ 53" "nat n < 2 ^ 53"
    by (simp_all add: isSafeInteger_def)
  then show ?thesis
    by (simp add: Number_toString_def decimal_string_def magnitude_toString_safe)
qed

lemmas number_eval =
  Number_toString_def magnitude_toString_def double_of_def excess.simps shortest_def
  candidates_def closest_def exponential_def significant_def nat_toString.simps digit_char_def
  Let_def

lemma Number_toString_minus_one: "Number_toString (- 1) = ''-1''"
  by (simp add: Number_toString_safe isSafeInteger_def decimal_string_def nat_toString_digit
      digit_char_def)

text \<open>
  Beyond the safe integers the digits are those of the double, the shortest that read back
  as it, and from 21 zeros on they come with an exponent.
\<close>

lemma Number_toString_beyond: "Number_toString (10 ^ 21) = ''1e+21''"
  by (simp add: number_eval)

lemma Number_toString_rounded: "Number_toString (2 ^ 60) = ''1152921504606847000''"
  by (simp add: number_eval)

subsection \<open>The envelope of each constructor\<close>


lemma createBasic_eq:
  "createBasic rq op fs r =
     (case toString r of
        Inl e \<Rightarrow> (Inl e, rq)
      | Inr s \<Rightarrow>
          (Inr [Key rq OPERATION \<mapsto> op, Key rq FILE_SYSTEM_ID \<mapsto> fs,
                Key rq REQUEST_ID \<mapsto> JSString s], rq))"
  by (simp add: createBasic_def)

lemma createReadMetadataRequest_eq:
  "createReadMetadataRequest rq fs r a =
     (case toString r of
        Inl e \<Rightarrow> (Inl e, rq)
      | Inr s \<Rightarrow>
          (case toString a of
             Inl e \<Rightarrow> (Inl e, rq)
           | Inr t \<Rightarrow>
               (Inr [Key rq OPERATION \<mapsto> JSNumber (Operation rq READ_METADATA),
                     Key rq FILE_SYSTEM_ID \<mapsto> fs,
                     Key rq REQUEST_ID \<mapsto> JSString s,
                     Key rq ARCHIVE_SIZE \<mapsto> JSString t], rq)))"
  by (simp add: createReadMetadataRequest_def createBasic_eq split: sum.split)

lemma createReadChunkDoneResponse_eq:
  "createReadChunkDoneResponse rq fs r buf =
     (case toString r of
        Inl e \<Rightarrow> (Inl e, rq)
      | Inr s \<Rightarrow>
          (Inr [Key rq OPERATION \<mapsto> JSNumber (Operation rq READ_CHUNK_DONE),
                Key rq FILE_SYSTEM_ID \<mapsto> fs,
                Key rq REQUEST_ID \<mapsto> JSString s,
                Key rq CHUNK_BUFFER \<mapsto> buf], rq))"
  by (simp add: createReadChunkDoneResponse_def createBasic_eq split: sum.split)

lemma createReadChunkErrorResponse_eq:
  "createReadChunkErrorResponse rq fs r =
     (case toString r of
        Inl e \<Rightarrow> (Inl e, rq)
      | Inr s \<Rightarrow>
          (Inr [Key rq OPERATION \<mapsto> JSNumber (Operation rq READ_CHUNK_ERROR),
                Key rq FILE_SYSTEM_ID \<mapsto> fs,
                Key rq REQUEST_ID \<mapsto> JSString s], rq))"
  by (simp add: createReadChunkErrorResponse_def createBasic_eq)

lemma createCloseVolumeRequest_eq:
  "createCloseVolumeRequest rq fs =
     (Inr [Key rq OPERATION \<mapsto> JSNumber (Operation rq CLOSE_VOLUME),
           Key rq FILE_SYSTEM_ID \<mapsto> fs,
           Key rq REQUEST_ID \<mapsto> JSString ''-1''], rq)"
  by (simp add: createCloseVolumeRequest_def createBasic_eq Number_toString_minus_one)

lemma createOpenFileRequest_eq:
  "createOpenFileRequest rq fs r p a =
     (case toString r of
        Inl e \<Rightarrow> (Inl e, rq)
      | Inr s \<Rightarrow>
          (case toString a of
             Inl e \<Rightarrow> (Inl e, rq)
           | Inr t \<Rightarrow>
               (Inr [Key rq OPERATION \<mapsto> JSNumber (Operation rq OPEN_FILE),
                     Key rq FILE_SYSTEM_ID \<mapsto> fs,
                     Key rq REQUEST_ID \<mapsto> JSString s,
                     Key rq FILE_PATH \<mapsto> p,
                     Key rq ARCHIVE_SIZE \<mapsto> JSString t], rq)))"
  by (simp add: createOpenFileRequest_def createBasic_eq split: sum.split)

lemma createCloseFileRequest_eq:
  "createCloseFileRequest rq fs r opn =
     (case toString r of
        Inl e \<Rightarrow> (Inl e, rq)
      | Inr s \<Rightarrow>
          (case toString opn of
             Inl e \<Rightarrow> (Inl e, rq)
           | Inr t \<Rightarrow>
               (Inr [Key rq OPERATION \<mapsto> JSNumber (Operation rq CLOSE_FILE),
                     Key rq FILE_SYSTEM_ID \<mapsto> fs,
                     Key rq REQUEST_ID \<mapsto> JSString s,
                     Key rq OPEN_REQUEST_ID \<mapsto> JSString t], rq)))"
  by (simp add: createCloseFileRequest_def createBasic_eq split: sum.split)

lemma createReadFileRequest_eq:
  "createReadFileRequest rq fs r opn off len =
     (case toString r of
        Inl e \<Rightarrow> (Inl e, rq)
      | Inr s \<Rightarrow>
          (case toString opn of
             Inl e \<Rightarrow> (Inl e, rq)
           | Inr t \<Rightarrow>
               (case toString off of
                  Inl e \<Rightarrow> (Inl e, rq)
                | Inr u \<Rightarrow>
                    (Inr [Key rq OPERATION \<mapsto> JSNumber (Operation rq READ_FILE),
                          Key rq FILE_SYSTEM_ID \<mapsto> fs,
                          Key rq REQUEST_ID \<mapsto> JSString s,
                          Key rq OPEN_REQUEST_ID \<mapsto> JSString t,
                          Key rq OFFSET \<mapsto> JSString u,
                          Key rq LENGTH \<mapsto> len], rq))))"
  by (simp add: createReadFileRequest_def createBasic_eq split: sum.split)

lemmas constructor_eqs =
  createBasic_eq createReadMetadataRequest_eq createReadChunkDoneResponse_eq
  createReadChunkErrorResponse_eq createCloseVolumeRequest_eq createOpenFileRequest_eq
  createCloseFileRequest_eq createReadFileRequest_eq

lemma Key_request: "Key request = Key_init"
  by (simp add: request_def)

lemma Operation_request: "Operation request = Operation_init"
  by (simp add: request_def)

lemmas request_tables = Key_request Operation_request

lemmas render =
  Number_toString_safe isSafeInteger_def decimal_string_def nat_toString.simps digit_char_def

subsection \<open>The keys of an envelope\<close>

lemma keys_createReadMetadataRequest:
  "fst (createReadMetadataRequest request fs r a) = Inr env \<Longrightarrow>
     dom env = {''operation'', ''file_system_id'', ''request_id'', ''archive_size''}"
  by (auto simp: createReadMetadataRequest_eq request_tables split: sum.splits if_splits)

lemma keys_createReadChunkDoneResponse:
  "fst (createReadChunkDoneResponse request fs r buf) = Inr env \<Longrightarrow>
     dom env = {''operation'', ''file_system_id'', ''request_id'', ''chunk_buffer''}"
  by (auto simp: createReadChunkDoneResponse_eq request_tables split: sum.splits if_splits)

lemma keys_createReadChunkErrorResponse:
  "fst (createReadChunkErrorResponse request fs r) = Inr env \<Longrightarrow>
     dom env = {''operation'', ''file_system_id'', ''request_id''}"
  by (auto simp: createReadChunkErrorResponse_eq request_tables split: sum.splits if_splits)

lemma keys_createCloseVolumeRequest:
  "fst (createCloseVolumeRequest request fs) = Inr env \<Longrightarrow>
     dom env = {''operation'', ''file_system_id'', ''request_id''}"
  by (auto simp: createCloseVolumeRequest_eq request_tables split: sum.splits if_splits)

lemma keys_createOpenFileRequest:
  "fst (createOpenFileRequest request fs r p a) = Inr env \<Longrightarrow>
     dom env = {''operation'', ''file_system_id'', ''request_id'', ''file_path'', ''archive_size''}"
  by (auto simp: createOpenFileRequest_eq request_tables split: sum.splits if_splits)

lemma keys_createCloseFileRequest:
  "fst (createCloseFileRequest request fs r opn) = Inr env \<Longrightarrow>
     dom env = {''operation'', ''file_system_id'', ''request_id'', ''open_request_id''}"
  by (auto simp: createCloseFileRequest_eq request_tables split: sum.splits if_splits)

lemma keys_createReadFileRequest:
  "fst (createReadFileRequest request fs r opn off len) = Inr env \<Longrightarrow>
     dom env =
       {''operation'', ''file_system_id'', ''request_id'', ''open_request_id'', ''offset'',
        ''length''}"
  by (auto simp: createReadFileRequest_eq request_tables split: sum.splits if_splits)

text \<open>
  C1. Whatever the arguments, an envelope that a constructor returns has the three mandatory
  keys \<^verbatim>\<open>operation\<close>, \<^verbatim>\<open>file_system_id\<close> and \<^verbatim>\<open>request_id\<close>, the keys of its operation in the
  table of section 6, and no other key.
\<close>

theorem envelope_keys:
  "(\<forall>fs r a env. fst (createReadMetadataRequest request fs r a) = Inr env \<longrightarrow>
      dom env = {''operation'', ''file_system_id'', ''request_id'', ''archive_size''}) \<and>
   (\<forall>fs r buf env. fst (createReadChunkDoneResponse request fs r buf) = Inr env \<longrightarrow>
      dom env = {''operation'', ''file_system_id'', ''request_id'', ''chunk_buffer''}) \<and>
   (\<forall>fs r env. fst (createReadChunkErrorResponse request fs r) = Inr env \<longrightarrow>
      dom env = {''operation'', ''file_system_id'', ''request_id''}) \<and>
   (\<forall>fs env. fst (createCloseVolumeRequest request fs) = Inr env \<longrightarrow>
      dom env = {''operation'', ''file_system_id'', ''request_id''}) \<and>
   (\<forall>fs r p a env. fst (createOpenFileRequest request fs r p a) = Inr env \<longrightarrow>
      dom env =
        {''operation'', ''file_system_id'', ''request_id'', ''file_path'', ''archive_size''}) \<and>
   (\<forall>fs r opn env. fst (createCloseFileRequest request fs r opn) = Inr env \<longrightarrow>
      dom env = {''operation'', ''file_system_id'', ''request_id'', ''open_request_id''}) \<and>
   (\<forall>fs r opn off len env. fst (createReadFileRequest request fs r opn off len) = Inr env \<longrightarrow>
      dom env =
        {''operation'', ''file_system_id'', ''request_id'', ''open_request_id'', ''offset'',
         ''length''})"
  using keys_createReadMetadataRequest keys_createReadChunkDoneResponse
    keys_createReadChunkErrorResponse keys_createCloseVolumeRequest keys_createOpenFileRequest
    keys_createCloseFileRequest keys_createReadFileRequest
  by (intro conjI allI impI) assumption+

theorem envelope_keys_witness:
  "(\<exists>env. fst (createReadMetadataRequest request (JSString ''a'') (JSNumber 1) (JSNumber 1000)) = Inr env \<and>
      dom env = {''operation'', ''file_system_id'', ''request_id'', ''archive_size''}) \<and>
   (\<exists>env. fst (createReadChunkDoneResponse request (JSString ''a'') (JSNumber 2) (JSArrayBuffer ''PK'')) = Inr env \<and>
      dom env = {''operation'', ''file_system_id'', ''request_id'', ''chunk_buffer''}) \<and>
   (\<exists>env. fst (createReadChunkErrorResponse request (JSString ''a'') (JSNumber 2)) = Inr env \<and>
      dom env = {''operation'', ''file_system_id'', ''request_id''}) \<and>
   (\<exists>env. fst (createCloseVolumeRequest request (JSString ''a'')) = Inr env \<and>
      dom env = {''operation'', ''file_system_id'', ''request_id''}) \<and>
   (\<exists>env. fst (createOpenFileRequest request (JSString ''a'') (JSNumber 3) (JSString ''/x.txt'') (JSString ''1000'')) = Inr env \<and>
      dom env = {''operation'', ''file_system_id'', ''request_id'', ''file_path'', ''archive_size''}) \<and>
   (\<exists>env. fst (createCloseFileRequest request (JSString ''a'') (JSNumber 5) (JSNumber 3)) = Inr env \<and>
      dom env = {''operation'', ''file_system_id'', ''request_id'', ''open_request_id''}) \<and>
   (\<exists>env. fst (createReadFileRequest request (JSString ''a'') (JSNumber 4) (JSNumber 3) (JSNumber 0) (JSNumber 100)) = Inr env \<and>
      dom env = {''operation'', ''file_system_id'', ''request_id'', ''open_request_id'', ''offset'', ''length''})"
proof -
  have a: "\<exists>env. fst (createReadMetadataRequest request (JSString ''a'') (JSNumber 1) (JSNumber 1000)) = Inr env \<and>
        dom env = {''operation'', ''file_system_id'', ''request_id'', ''archive_size''}"
  proof -
    obtain env where env: "fst (createReadMetadataRequest request (JSString ''a'') (JSNumber 1) (JSNumber 1000)) = Inr env"
      by (simp add: createReadMetadataRequest_eq)
    from envelope_keys [THEN conjunct1, rule_format, OF env] env show ?thesis
      by simp
  qed
  have b: "\<exists>env. fst (createReadChunkDoneResponse request (JSString ''a'') (JSNumber 2) (JSArrayBuffer ''PK'')) = Inr env \<and>
        dom env = {''operation'', ''file_system_id'', ''request_id'', ''chunk_buffer''}"
  proof -
    obtain env where env: "fst (createReadChunkDoneResponse request (JSString ''a'') (JSNumber 2) (JSArrayBuffer ''PK'')) = Inr env"
      by (simp add: createReadChunkDoneResponse_eq)
    from envelope_keys [THEN conjunct2, THEN conjunct1, rule_format, OF env] env show ?thesis
      by simp
  qed
  have c: "\<exists>env. fst (createReadChunkErrorResponse request (JSString ''a'') (JSNumber 2)) = Inr env \<and>
        dom env = {''operation'', ''file_system_id'', ''request_id''}"
  proof -
    obtain env where env: "fst (createReadChunkErrorResponse request (JSString ''a'') (JSNumber 2)) = Inr env"
      by (simp add: createReadChunkErrorResponse_eq)
    from envelope_keys [THEN conjunct2, THEN conjunct2, THEN conjunct1, rule_format, OF env] env show ?thesis
      by simp
  qed
  have d: "\<exists>env. fst (createCloseVolumeRequest request (JSString ''a'')) = Inr env \<and>
        dom env = {''operation'', ''file_system_id'', ''request_id''}"
  proof -
    obtain env where env: "fst (createCloseVolumeRequest request (JSString ''a'')) = Inr env"
      by (simp add: createCloseVolumeRequest_eq)
    from envelope_keys [THEN conjunct2, THEN conjunct2, THEN conjunct2, THEN conjunct1, rule_format, OF env] env show ?thesis
      by simp
  qed
  have e: "\<exists>env. fst (createOpenFileRequest request (JSString ''a'') (JSNumber 3) (JSString ''/x.txt'') (JSString ''1000'')) = Inr env \<and>
        dom env = {''operation'', ''file_system_id'', ''request_id'', ''file_path'', ''archive_size''}"
  proof -
    obtain env where env: "fst (createOpenFileRequest request (JSString ''a'') (JSNumber 3) (JSString ''/x.txt'') (JSString ''1000'')) = Inr env"
      by (simp add: createOpenFileRequest_eq)
    from envelope_keys [THEN conjunct2, THEN conjunct2, THEN conjunct2, THEN conjunct2, THEN conjunct1, rule_format, OF env] env show ?thesis
      by simp
  qed
  have f: "\<exists>env. fst (createCloseFileRequest request (JSString ''a'') (JSNumber 5) (JSNumber 3)) = Inr env \<and>
        dom env = {''operation'', ''file_system_id'', ''request_id'', ''open_request_id''}"
  proof -
    obtain env where env: "fst (createCloseFileRequest request (JSString ''a'') (JSNumber 5) (JSNumber 3)) = Inr env"
      by (simp add: createCloseFileRequest_eq)
    from envelope_keys [THEN conjunct2, THEN conjunct2, THEN conjunct2, THEN conjunct2, THEN conjunct2, THEN conjunct1, rule_format, OF env] env show ?thesis
      by simp
  qed
  have g: "\<exists>env. fst (createReadFileRequest request (JSString ''a'') (JSNumber 4) (JSNumber 3) (JSNumber 0) (JSNumber 100)) = Inr env \<and>
        dom env = {''operation'', ''file_system_id'', ''request_id'', ''open_request_id'', ''offset'', ''length''}"
  proof -
    obtain env where env: "fst (createReadFileRequest request (JSString ''a'') (JSNumber 4) (JSNumber 3) (JSNumber 0) (JSNumber 100)) = Inr env"
      by (simp add: createReadFileRequest_eq)
    from envelope_keys [THEN conjunct2, THEN conjunct2, THEN conjunct2, THEN conjunct2, THEN conjunct2, THEN conjunct2, rule_format, OF env] env show ?thesis
      by simp
  qed
  from a b c d e f g show ?thesis
    by (intro conjI)
qed

subsection \<open>Numbers on the wire\<close>

text \<open>
  C2, as the claim has it for every numeric input: a number beyond the safe integers is not
  sent as the decimal string of its value. The archive size \<open>10\<^sup>2\<^sup>1\<close> goes out as \<^verbatim>\<open>1e+21\<close>.
\<close>

theorem numbers_beyond_safe_not_decimal:
  "fst (createReadMetadataRequest request (JSString ''a'') (JSNumber 1) (JSNumber (10 ^ 21))) =
     Inr [''operation'' \<mapsto> JSNumber 0, ''file_system_id'' \<mapsto> JSString ''a'',
          ''request_id'' \<mapsto> JSString ''1'', ''archive_size'' \<mapsto> JSString ''1e+21''] \<and>
   decimal_string (10 ^ 21) = ''1000000000000000000000'' \<and>
   \<not> isSafeInteger (10 ^ 21)"
proof -
  have "Number_toString 1 = ''1''"
    by (simp add: render)
  moreover from Number_toString_beyond
  have "Number_toString 1000000000000000000000 = ''1e+21''"
    by simp
  moreover have "decimal_string (10 ^ 21) = ''1000000000000000000000''"
    by (simp add: decimal_string_def nat_toString.simps digit_char_def)
  moreover have "\<not> isSafeInteger (10 ^ 21)"
    by (simp add: isSafeInteger_def)
  ultimately show ?thesis
    by (simp add: createReadMetadataRequest_eq request_tables)
qed

text \<open>
  C2, amended. Whatever safe integer is passed as \<^verbatim>\<open>requestId\<close>, \<^verbatim>\<open>openRequestId\<close>, \<^verbatim>\<open>offset\<close>
  or \<^verbatim>\<open>archiveSize\<close>, the envelope holds the string that \<^verbatim>\<open>toString\<close> makes of it, and that
  string is the decimal string of its value; the \<^verbatim>\<open>length\<close> of \<^verbatim>\<open>createReadFileRequest\<close> is
  stored as the value it is, a number staying a number.
\<close>

theorem numbers_as_decimal_strings:
  assumes "isSafeInteger r" and "isSafeInteger opn" and "isSafeInteger off"
    and "isSafeInteger a"
  shows
  "(\<exists>env. fst (createBasic request op fs (JSNumber r)) = Inr env \<and>
      env ''request_id'' = Some (JSString (decimal_string r))) \<and>
   (\<exists>env. fst (createReadMetadataRequest request fs (JSNumber r) (JSNumber a)) = Inr env \<and>
      env ''request_id'' = Some (JSString (decimal_string r)) \<and>
      env ''archive_size'' = Some (JSString (decimal_string a))) \<and>
   (\<exists>env. fst (createReadChunkDoneResponse request fs (JSNumber r) buf) = Inr env \<and>
      env ''request_id'' = Some (JSString (decimal_string r))) \<and>
   (\<exists>env. fst (createReadChunkErrorResponse request fs (JSNumber r)) = Inr env \<and>
      env ''request_id'' = Some (JSString (decimal_string r))) \<and>
   (\<exists>env. fst (createOpenFileRequest request fs (JSNumber r) p (JSNumber a)) = Inr env \<and>
      env ''request_id'' = Some (JSString (decimal_string r)) \<and>
      env ''archive_size'' = Some (JSString (decimal_string a))) \<and>
   (\<exists>env. fst (createCloseFileRequest request fs (JSNumber r) (JSNumber opn)) = Inr env \<and>
      env ''request_id'' = Some (JSString (decimal_string r)) \<and>
      env ''open_request_id'' = Some (JSString (decimal_string opn))) \<and>
   (\<exists>env. fst (createReadFileRequest request fs (JSNumber r) (JSNumber opn) (JSNumber off)
               (JSNumber len)) = Inr env \<and>
      env ''request_id'' = Some (JSString (decimal_string r)) \<and>
      env ''open_request_id'' = Some (JSString (decimal_string opn)) \<and>
      env ''offset'' = Some (JSString (decimal_string off)) \<and>
      env ''length'' = Some (JSNumber len))"
  using assms by (simp add: constructor_eqs request_tables Number_toString_safe)

theorem numbers_as_decimal_strings_witness:
  "isSafeInteger 4 \<and> isSafeInteger 3 \<and> isSafeInteger 4096 \<and> isSafeInteger 1000 \<and>
   (\<exists>env. fst (createReadFileRequest request (JSString ''a'') (JSNumber 4) (JSNumber 3)
             (JSNumber 4096) (JSNumber 512)) = Inr env \<and>
     env ''request_id'' = Some (JSString ''4'') \<and>
     env ''open_request_id'' = Some (JSString ''3'') \<and>
     env ''offset'' = Some (JSString ''4096'') \<and>
     env ''length'' = Some (JSNumber 512)) \<and>
   (\<exists>env. fst (createReadMetadataRequest request (JSString ''a'') (JSNumber 4)
             (JSNumber 1000)) = Inr env \<and>
     env ''request_id'' = Some (JSString ''4'') \<and>
     env ''archive_size'' = Some (JSString ''1000''))"
proof -
  have s: "isSafeInteger 4" "isSafeInteger 3" "isSafeInteger 4096" "isSafeInteger 1000"
    by (simp_all add: isSafeInteger_def)
  have d: "decimal_string 4 = ''4''" "decimal_string 3 = ''3''"
    "decimal_string 4096 = ''4096''" "decimal_string 1000 = ''1000''"
    by (simp_all add: decimal_string_def nat_toString.simps digit_char_def)
  note n = numbers_as_decimal_strings [OF s,
      where fs = "JSString ''a''" and len = 512]
  from n [THEN conjunct2, THEN conjunct1] d
  have a: "\<exists>env. fst (createReadMetadataRequest request (JSString ''a'') (JSNumber 4)
             (JSNumber 1000)) = Inr env \<and>
     env ''request_id'' = Some (JSString ''4'') \<and>
     env ''archive_size'' = Some (JSString ''1000'')"
    by simp
  from n [THEN conjunct2, THEN conjunct2, THEN conjunct2, THEN conjunct2, THEN conjunct2,
      THEN conjunct2] d
  have b: "\<exists>env. fst (createReadFileRequest request (JSString ''a'') (JSNumber 4) (JSNumber 3)
             (JSNumber 4096) (JSNumber 512)) = Inr env \<and>
     env ''request_id'' = Some (JSString ''4'') \<and>
     env ''open_request_id'' = Some (JSString ''3'') \<and>
     env ''offset'' = Some (JSString ''4096'') \<and>
     env ''length'' = Some (JSNumber 512)"
    by simp
  from s a b show ?thesis
    by (intro conjI)
qed

subsection \<open>close-volume\<close>

text \<open>
  C3. For every file system id, \<^verbatim>\<open>createCloseVolumeRequest\<close> returns an envelope whose
  operation is \<^verbatim>\<open>CLOSE_VOLUME\<close>, whose \<^verbatim>\<open>request_id\<close> is the string \<^verbatim>\<open>-1\<close> and which has the three
  mandatory keys only. The enumeration has no operation that answers it: no
  \<^verbatim>\<open>CLOSE_VOLUME_DONE\<close>.
\<close>

theorem close_volume_envelope:
  "\<exists>env. fst (createCloseVolumeRequest request fs) = Inr env \<and>
     env ''operation'' = Some (JSNumber (Operation request CLOSE_VOLUME)) \<and>
     env ''file_system_id'' = Some fs \<and>
     env ''request_id'' = Some (JSString ''-1'') \<and>
     dom env = {''operation'', ''file_system_id'', ''request_id''} \<and>
     done_operation CLOSE_VOLUME = None"
proof -
  have "done_operation CLOSE_VOLUME = None"
    by (simp add: done_operation_def Operation_all_def)
  moreover have "dom [''operation'' \<mapsto> JSNumber (Operation_init CLOSE_VOLUME),
      ''file_system_id'' \<mapsto> fs, ''request_id'' \<mapsto> JSString ''-1''] =
      {''operation'', ''file_system_id'', ''request_id''}"
    by auto
  ultimately show ?thesis
    by (simp add: createCloseVolumeRequest_eq request_tables)
qed

theorem close_volume_envelope_witness:
  "\<exists>env. fst (createCloseVolumeRequest request (JSString ''a'')) = Inr env \<and>
     env ''operation'' = Some (JSNumber 5) \<and>
     env ''file_system_id'' = Some (JSString ''a'') \<and>
     env ''request_id'' = Some (JSString ''-1'') \<and>
     dom env = {''operation'', ''file_system_id'', ''request_id''} \<and>
     done_operation CLOSE_VOLUME = None \<and>
     done_operation CLOSE_FILE = Some CLOSE_FILE_DONE"
proof -
  have "done_operation CLOSE_FILE = Some CLOSE_FILE_DONE"
    by (simp add: done_operation_def Operation_all_def)
  with close_volume_envelope [of "JSString ''a''"] show ?thesis
    by (simp add: request_tables)
qed

subsection \<open>The operation codes\<close>

lemma inj_Operation_request: "inj (Operation request)"
proof (rule injI)
  fix x y
  show "Operation request x = Operation request y \<Longrightarrow> x = y"
    by (cases x; cases y) (simp_all add: request_tables)
qed

lemma set_Operation_all: "set Operation_all = UNIV"
proof -
  have "x \<in> set Operation_all" for x
    by (cases x) (simp_all add: Operation_all_def)
  then show ?thesis by blast
qed

lemma operation_createReadMetadataRequest:
  "fst (createReadMetadataRequest request fs r a) = Inr env \<Longrightarrow>
     env ''operation'' = Some (JSNumber (Operation request READ_METADATA))"
  by (auto simp: createReadMetadataRequest_eq request_tables split: sum.splits)

lemma operation_createReadChunkDoneResponse:
  "fst (createReadChunkDoneResponse request fs r buf) = Inr env \<Longrightarrow>
     env ''operation'' = Some (JSNumber (Operation request READ_CHUNK_DONE))"
  by (auto simp: createReadChunkDoneResponse_eq request_tables split: sum.splits)

lemma operation_createReadChunkErrorResponse:
  "fst (createReadChunkErrorResponse request fs r) = Inr env \<Longrightarrow>
     env ''operation'' = Some (JSNumber (Operation request READ_CHUNK_ERROR))"
  by (auto simp: createReadChunkErrorResponse_eq request_tables split: sum.splits)

lemma operation_createCloseVolumeRequest:
  "fst (createCloseVolumeRequest request fs) = Inr env \<Longrightarrow>
     env ''operation'' = Some (JSNumber (Operation request CLOSE_VOLUME))"
  by (auto simp: createCloseVolumeRequest_eq request_tables split: sum.splits)

lemma operation_createOpenFileRequest:
  "fst (createOpenFileRequest request fs r p a) = Inr env \<Longrightarrow>
     env ''operation'' = Some (JSNumber (Operation request OPEN_FILE))"
  by (auto simp: createOpenFileRequest_eq request_tables split: sum.splits)

lemma operation_createCloseFileRequest:
  "fst (createCloseFileRequest request fs r opn) = Inr env \<Longrightarrow>
     env ''operation'' = Some (JSNumber (Operation request CLOSE_FILE))"
  by (auto simp: createCloseFileRequest_eq request_tables split: sum.splits)

lemma operation_createReadFileRequest:
  "fst (createReadFileRequest request fs r opn off len) = Inr env \<Longrightarrow>
     env ''operation'' = Some (JSNumber (Operation request READ_FILE))"
  by (auto simp: createReadFileRequest_eq request_tables split: sum.splits)

text \<open>
  C4. \<^verbatim>\<open>request.Operation\<close> has exactly thirteen kinds, their codes are \<open>0\<close> to \<open>11\<close> in the order
  of the source and \<open>-1\<close> for \<^verbatim>\<open>FILE_SYSTEM_ERROR\<close>, no two kinds share a code, and every
  constructor stores the code of its own kind under \<^verbatim>\<open>operation\<close>.
\<close>

theorem operation_codes:
  "set Operation_all = UNIV \<and> distinct Operation_all \<and> length Operation_all = 13 \<and>
   map (Operation request) Operation_all = [0, 1, 2, 3, 4, 5, 6, 7, 8, 9, 10, 11, - 1] \<and>
   inj (Operation request) \<and>
   (\<forall>fs r a env. fst (createReadMetadataRequest request fs r a) = Inr env \<longrightarrow>
      env ''operation'' = Some (JSNumber (Operation request READ_METADATA))) \<and>
   (\<forall>fs r buf env. fst (createReadChunkDoneResponse request fs r buf) = Inr env \<longrightarrow>
      env ''operation'' = Some (JSNumber (Operation request READ_CHUNK_DONE))) \<and>
   (\<forall>fs r env. fst (createReadChunkErrorResponse request fs r) = Inr env \<longrightarrow>
      env ''operation'' = Some (JSNumber (Operation request READ_CHUNK_ERROR))) \<and>
   (\<forall>fs env. fst (createCloseVolumeRequest request fs) = Inr env \<longrightarrow>
      env ''operation'' = Some (JSNumber (Operation request CLOSE_VOLUME))) \<and>
   (\<forall>fs r p a env. fst (createOpenFileRequest request fs r p a) = Inr env \<longrightarrow>
      env ''operation'' = Some (JSNumber (Operation request OPEN_FILE))) \<and>
   (\<forall>fs r opn env. fst (createCloseFileRequest request fs r opn) = Inr env \<longrightarrow>
      env ''operation'' = Some (JSNumber (Operation request CLOSE_FILE))) \<and>
   (\<forall>fs r opn off len env. fst (createReadFileRequest request fs r opn off len) = Inr env \<longrightarrow>
      env ''operation'' = Some (JSNumber (Operation request READ_FILE)))"
proof -
  have "distinct Operation_all" "length Operation_all = 13"
    "map (Operation request) Operation_all = [0, 1, 2, 3, 4, 5, 6, 7, 8, 9, 10, 11, - 1]"
    by (simp_all add: Operation_all_def request_tables)
  with set_Operation_all inj_Operation_request
    operation_createReadMetadataRequest operation_createReadChunkDoneResponse
    operation_createReadChunkErrorResponse operation_createCloseVolumeRequest
    operation_createOpenFileRequest operation_createCloseFileRequest
    operation_createReadFileRequest
  show ?thesis
    by (intro conjI allI impI) assumption+
qed

theorem operation_codes_witness:
  "(\<exists>env. fst (createReadMetadataRequest request (JSString ''a'') (JSNumber 1) (JSNumber 1000)) = Inr env \<and>
      env ''operation'' = Some (JSNumber 0)) \<and>
   (\<exists>env. fst (createReadChunkDoneResponse request (JSString ''a'') (JSNumber 2) (JSArrayBuffer ''PK'')) = Inr env \<and>
      env ''operation'' = Some (JSNumber 3)) \<and>
   (\<exists>env. fst (createReadChunkErrorResponse request (JSString ''a'') (JSNumber 2)) = Inr env \<and>
      env ''operation'' = Some (JSNumber 4)) \<and>
   (\<exists>env. fst (createCloseVolumeRequest request (JSString ''a'')) = Inr env \<and>
      env ''operation'' = Some (JSNumber 5)) \<and>
   (\<exists>env. fst (createOpenFileRequest request (JSString ''a'') (JSNumber 3) (JSString ''/x.txt'') (JSString ''1000'')) = Inr env \<and>
      env ''operation'' = Some (JSNumber 6)) \<and>
   (\<exists>env. fst (createCloseFileRequest request (JSString ''a'') (JSNumber 5) (JSNumber 3)) = Inr env \<and>
      env ''operation'' = Some (JSNumber 8)) \<and>
   (\<exists>env. fst (createReadFileRequest request (JSString ''a'') (JSNumber 4) (JSNumber 3) (JSNumber 0) (JSNumber 100)) = Inr env \<and>
      env ''operation'' = Some (JSNumber 10))"
proof -
  have a: "\<exists>env. fst (createReadMetadataRequest request (JSString ''a'') (JSNumber 1) (JSNumber 1000)) = Inr env \<and>
        env ''operation'' = Some (JSNumber 0)"
  proof -
    obtain env where env: "fst (createReadMetadataRequest request (JSString ''a'') (JSNumber 1) (JSNumber 1000)) = Inr env"
      by (simp add: createReadMetadataRequest_eq)
    from operation_codes [THEN conjunct2, THEN conjunct2, THEN conjunct2, THEN conjunct2, THEN conjunct2, THEN conjunct1, rule_format, OF env] env show ?thesis
      by (simp add: request_tables)
  qed
  have b: "\<exists>env. fst (createReadChunkDoneResponse request (JSString ''a'') (JSNumber 2) (JSArrayBuffer ''PK'')) = Inr env \<and>
        env ''operation'' = Some (JSNumber 3)"
  proof -
    obtain env where env: "fst (createReadChunkDoneResponse request (JSString ''a'') (JSNumber 2) (JSArrayBuffer ''PK'')) = Inr env"
      by (simp add: createReadChunkDoneResponse_eq)
    from operation_codes [THEN conjunct2, THEN conjunct2, THEN conjunct2, THEN conjunct2, THEN conjunct2, THEN conjunct2, THEN conjunct1, rule_format, OF env] env show ?thesis
      by (simp add: request_tables)
  qed
  have c: "\<exists>env. fst (createReadChunkErrorResponse request (JSString ''a'') (JSNumber 2)) = Inr env \<and>
        env ''operation'' = Some (JSNumber 4)"
  proof -
    obtain env where env: "fst (createReadChunkErrorResponse request (JSString ''a'') (JSNumber 2)) = Inr env"
      by (simp add: createReadChunkErrorResponse_eq)
    from operation_codes [THEN conjunct2, THEN conjunct2, THEN conjunct2, THEN conjunct2, THEN conjunct2, THEN conjunct2, THEN conjunct2, THEN conjunct1, rule_format, OF env] env show ?thesis
      by (simp add: request_tables)
  qed
  have d: "\<exists>env. fst (createCloseVolumeRequest request (JSString ''a'')) = Inr env \<and>
        env ''operation'' = Some (JSNumber 5)"
  proof -
    obtain env where env: "fst (createCloseVolumeRequest request (JSString ''a'')) = Inr env"
      by (simp add: createCloseVolumeRequest_eq)
    from operation_codes [THEN conjunct2, THEN conjunct2, THEN conjunct2, THEN conjunct2, THEN conjunct2, THEN conjunct2, THEN conjunct2, THEN conjunct2, THEN conjunct1, rule_format, OF env] env show ?thesis
      by (simp add: request_tables)
  qed
  have e: "\<exists>env. fst (createOpenFileRequest request (JSString ''a'') (JSNumber 3) (JSString ''/x.txt'') (JSString ''1000'')) = Inr env \<and>
        env ''operation'' = Some (JSNumber 6)"
  proof -
    obtain env where env: "fst (createOpenFileRequest request (JSString ''a'') (JSNumber 3) (JSString ''/x.txt'') (JSString ''1000'')) = Inr env"
      by (simp add: createOpenFileRequest_eq)
    from operation_codes [THEN conjunct2, THEN conjunct2, THEN conjunct2, THEN conjunct2, THEN conjunct2, THEN conjunct2, THEN conjunct2, THEN conjunct2, THEN conjunct2, THEN conjunct1, rule_format, OF env] env show ?thesis
      by (simp add: request_tables)
  qed
  have f: "\<exists>env. fst (createCloseFileRequest request (JSString ''a'') (JSNumber 5) (JSNumber 3)) = Inr env \<and>
        env ''operation'' = Some (JSNumber 8)"
  proof -
    obtain env where env: "fst (createCloseFileRequest request (JSString ''a'') (JSNumber 5) (JSNumber 3)) = Inr env"
      by (simp add: createCloseFileRequest_eq)
    from operation_codes [THEN conjunct2, THEN conjunct2, THEN conjunct2, THEN conjunct2, THEN conjunct2, THEN conjunct2, THEN conjunct2, THEN conjunct2, THEN conjunct2, THEN conjunct2, THEN conjunct1, rule_format, OF env] env show ?thesis
      by (simp add: request_tables)
  qed
  have g: "\<exists>env. fst (createReadFileRequest request (JSString ''a'') (JSNumber 4) (JSNumber 3) (JSNumber 0) (JSNumber 100)) = Inr env \<and>
        env ''operation'' = Some (JSNumber 10)"
  proof -
    obtain env where env: "fst (createReadFileRequest request (JSString ''a'') (JSNumber 4) (JSNumber 3) (JSNumber 0) (JSNumber 100)) = Inr env"
      by (simp add: createReadFileRequest_eq)
    from operation_codes [THEN conjunct2, THEN conjunct2, THEN conjunct2, THEN conjunct2, THEN conjunct2, THEN conjunct2, THEN conjunct2, THEN conjunct2, THEN conjunct2, THEN conjunct2, THEN conjunct2, rule_format, OF env] env show ?thesis
      by (simp add: request_tables)
  qed
  from a b c d e f g show ?thesis
    by (intro conjI)
qed

subsection \<open>Totality\<close>

text \<open>
  C10. On arguments of the documented types (a string for the file system id and the path,
  numbers for the ids, the offset and the length, an \<^verbatim>\<open>ArrayBuffer\<close>, and a number or a
  string for the archive size) every constructor returns an envelope and throws nothing.
  Nothing is checked: \<^verbatim>\<open>createReadFileRequest\<close> stores every offset and every length, whatever
  their sum, and \<^verbatim>\<open>createOpenFileRequest\<close> stores every path as it is.
\<close>

theorem constructors_total:
  "(\<exists>env. fst (createReadMetadataRequest request (JSString fs) (JSNumber r) (JSNumber a))
      = Inr env) \<and>
   (\<exists>env. fst (createReadChunkDoneResponse request (JSString fs) (JSNumber r)
      (JSArrayBuffer buf)) = Inr env) \<and>
   (\<exists>env. fst (createReadChunkErrorResponse request (JSString fs) (JSNumber r)) = Inr env) \<and>
   (\<exists>env. fst (createCloseVolumeRequest request (JSString fs)) = Inr env) \<and>
   (\<exists>env. fst (createOpenFileRequest request (JSString fs) (JSNumber r) (JSString p)
      (JSString sz)) = Inr env \<and>
      env ''file_path'' = Some (JSString p) \<and> env ''archive_size'' = Some (JSString sz)) \<and>
   (\<exists>env. fst (createOpenFileRequest request (JSString fs) (JSNumber r) (JSString p)
      (JSNumber a)) = Inr env \<and>
      env ''file_path'' = Some (JSString p)) \<and>
   (\<exists>env. fst (createCloseFileRequest request (JSString fs) (JSNumber r) (JSNumber opn))
      = Inr env) \<and>
   (\<exists>env. fst (createReadFileRequest request (JSString fs) (JSNumber r) (JSNumber opn)
      (JSNumber off) (JSNumber len)) = Inr env \<and>
      env ''offset'' = Some (JSString (Number_toString off)) \<and>
      env ''length'' = Some (JSNumber len))"
  by (simp add: constructor_eqs request_tables)

theorem constructors_total_witness:
  "(\<exists>env. fst (createReadFileRequest request (JSString ''a'') (JSNumber 4) (JSNumber 3)
      (JSNumber 900) (JSNumber 200)) = Inr env \<and>
      env ''offset'' = Some (JSString ''900'') \<and>
      env ''length'' = Some (JSNumber 200)) \<and>
   (\<exists>env. fst (createReadFileRequest request (JSString ''a'') (JSNumber 4) (JSNumber 3)
      (JSNumber (- 5)) (JSNumber (- 1))) = Inr env \<and>
      env ''offset'' = Some (JSString ''-5'') \<and>
      env ''length'' = Some (JSNumber (- 1))) \<and>
   (\<exists>env. fst (createOpenFileRequest request (JSString ''a'') (JSNumber 3) (JSString [])
      (JSString ''1000'')) = Inr env \<and>
      env ''file_path'' = Some (JSString []) \<and> env ''archive_size'' = Some (JSString ''1000''))"
proof -
  have "Number_toString 900 = ''900''" "Number_toString (- 5) = ''-5''"
    by (simp_all add: render)
  with constructors_total [of "''a''" 4 _ _ _ _ 3 900 200]
    constructors_total [of "''a''" 4 _ _ _ _ 3 "- 5" "- 1"]
    constructors_total [of "''a''" 3 _ _ "[]" "''1000''" _ _ _]
  show ?thesis by simp
qed

subsection \<open>No retained state\<close>

lemma snd_invoke: "snd (invoke rq c) = rq"
  by (cases c) (simp_all add: constructor_eqs split: sum.split)

lemma invoke_all_eq: "invoke_all rq cs = (map (\<lambda>c. fst (invoke rq c)) cs, rq)"
proof (induction cs)
  case Nil
  show ?case by simp
next
  case (Cons c cs)
  obtain r where "invoke rq c = (r, rq)"
    using snd_invoke [of rq c] by (cases "invoke rq c") simp
  with Cons show ?case by simp
qed

text \<open>
  C6. No function of the module changes the module: a call returns the tables as it found
  them. So a call made after other calls returns what it returns when made first, the
  results of a sequence of calls are the results of its calls made alone, and two calls
  with equal arguments in a sequence return equal results.
\<close>

theorem constructors_stateless:
  "snd (invoke rq c) = rq \<and>
   fst (invoke (snd (invoke rq c)) c') = fst (invoke rq c') \<and>
   invoke_all rq cs = (map (\<lambda>c. fst (invoke rq c)) cs, rq) \<and>
   (\<forall>i j. i < length cs \<and> j < length cs \<and> cs ! i = cs ! j \<longrightarrow>
      fst (invoke_all rq cs) ! i = fst (invoke_all rq cs) ! j)"
  by (simp add: snd_invoke invoke_all_eq)

theorem constructors_stateless_witness:
  "fst (invoke_all request
      [CreateCloseVolumeRequest (JSString ''a''),
       CreateReadChunkErrorResponse (JSString ''b'') JSUndefined,
       CreateCloseVolumeRequest (JSString ''a'')]) ! 0 =
   fst (invoke_all request
      [CreateCloseVolumeRequest (JSString ''a''),
       CreateReadChunkErrorResponse (JSString ''b'') JSUndefined,
       CreateCloseVolumeRequest (JSString ''a'')]) ! 2 \<and>
   snd (invoke_all request
      [CreateCloseVolumeRequest (JSString ''a''),
       CreateReadChunkErrorResponse (JSString ''b'') JSUndefined,
       CreateCloseVolumeRequest (JSString ''a'')]) = request \<and>
   fst (invoke request (CreateReadChunkErrorResponse (JSString ''b'') JSUndefined)) =
     Inl TypeError"
proof -
  let ?cs = "[CreateCloseVolumeRequest (JSString ''a''),
       CreateReadChunkErrorResponse (JSString ''b'') JSUndefined,
       CreateCloseVolumeRequest (JSString ''a'')]"
  note s = constructors_stateless [of request _ _ ?cs]
  have "(0::nat) < length ?cs \<and> (2::nat) < length ?cs \<and> ?cs ! 0 = ?cs ! 2"
    by simp
  with s [THEN conjunct2, THEN conjunct2, THEN conjunct2, rule_format, of 0 2]
  have "fst (invoke_all request ?cs) ! 0 = fst (invoke_all request ?cs) ! 2"
    by blast
  moreover from s have "snd (invoke_all request ?cs) = request"
    by simp
  moreover have "fst (invoke request (CreateReadChunkErrorResponse (JSString ''b'') JSUndefined))
      = Inl TypeError"
    by (simp add: createReadChunkErrorResponse_eq)
  ultimately show ?thesis by (intro conjI)
qed

subsection \<open>The key names\<close>

lemma UNIV_Key:
  "(UNIV :: Key set) =
     {OPERATION, FILE_SYSTEM_ID, REQUEST_ID, ERROR, METADATA, ARCHIVE_SIZE, CHUNK_BUFFER,
      OFFSET, LENGTH, FILE_PATH, OPEN_REQUEST_ID, READ_FILE_DATA, HAS_MORE_DATA}"
  by (auto intro: Key.exhaust)

lemma card_range_Key_request: "card (range (Key request)) = 13"
  by (simp add: UNIV_Key request_tables)

lemma inj_Key_request: "inj (Key request)"
proof (rule injI)
  fix x y
  show "Key request x = Key request y \<Longrightarrow> x = y"
    by (cases x; cases y) (simp_all add: request_tables)
qed

lemma mandatory_part_basic:
  "inj (Key rq) \<Longrightarrow>
     mandatory_part rq
       [Key rq OPERATION \<mapsto> op, Key rq FILE_SYSTEM_ID \<mapsto> fs, Key rq REQUEST_ID \<mapsto> s] =
     [Key rq OPERATION \<mapsto> op, Key rq FILE_SYSTEM_ID \<mapsto> fs, Key rq REQUEST_ID \<mapsto> s]"
  by (rule ext) (simp add: mandatory_part_def restrict_map_def)

lemma mandatory_part_upd:
  "inj (Key rq) \<Longrightarrow> k \<noteq> OPERATION \<Longrightarrow> k \<noteq> FILE_SYSTEM_ID \<Longrightarrow> k \<noteq> REQUEST_ID \<Longrightarrow>
     mandatory_part rq (m(Key rq k \<mapsto> v)) = mandatory_part rq m"
  by (rule ext) (simp add: mandatory_part_def restrict_map_def inj_eq)

lemmas entries_simps = constructor_eqs inj_eq mandatory_part_basic mandatory_part_upd

lemma entries_createReadMetadataRequest:
  "inj (Key rq) \<Longrightarrow> fst (createReadMetadataRequest rq fs r a) = Inr env \<Longrightarrow>
     card (dom env) = 3 + 1 \<and>
     fst (createBasic rq (JSNumber (Operation rq READ_METADATA)) fs r)
       = Inr (mandatory_part rq env)"
  by (auto simp: entries_simps split: sum.splits)

lemma entries_createReadChunkDoneResponse:
  "inj (Key rq) \<Longrightarrow> fst (createReadChunkDoneResponse rq fs r buf) = Inr env \<Longrightarrow>
     card (dom env) = 3 + 1 \<and>
     fst (createBasic rq (JSNumber (Operation rq READ_CHUNK_DONE)) fs r)
       = Inr (mandatory_part rq env)"
  by (auto simp: entries_simps split: sum.splits)

lemma entries_createReadChunkErrorResponse:
  "inj (Key rq) \<Longrightarrow> fst (createReadChunkErrorResponse rq fs r) = Inr env \<Longrightarrow>
     card (dom env) = 3 + 0 \<and>
     fst (createBasic rq (JSNumber (Operation rq READ_CHUNK_ERROR)) fs r)
       = Inr (mandatory_part rq env)"
  by (auto simp: entries_simps split: sum.splits)

lemma entries_createCloseVolumeRequest:
  "inj (Key rq) \<Longrightarrow> fst (createCloseVolumeRequest rq fs) = Inr env \<Longrightarrow>
     card (dom env) = 3 + 0 \<and>
     fst (createBasic rq (JSNumber (Operation rq CLOSE_VOLUME)) fs (JSNumber (- 1)))
       = Inr (mandatory_part rq env)"
  by (auto simp: entries_simps Number_toString_minus_one split: sum.splits)

lemma entries_createOpenFileRequest:
  "inj (Key rq) \<Longrightarrow> fst (createOpenFileRequest rq fs r p a) = Inr env \<Longrightarrow>
     card (dom env) = 3 + 2 \<and>
     fst (createBasic rq (JSNumber (Operation rq OPEN_FILE)) fs r)
       = Inr (mandatory_part rq env)"
  by (auto simp: entries_simps split: sum.splits)

lemma entries_createCloseFileRequest:
  "inj (Key rq) \<Longrightarrow> fst (createCloseFileRequest rq fs r opn) = Inr env \<Longrightarrow>
     card (dom env) = 3 + 1 \<and>
     fst (createBasic rq (JSNumber (Operation rq CLOSE_FILE)) fs r)
       = Inr (mandatory_part rq env)"
  by (auto simp: entries_simps split: sum.splits)

lemma entries_createReadFileRequest:
  "inj (Key rq) \<Longrightarrow> fst (createReadFileRequest rq fs r opn off len) = Inr env \<Longrightarrow>
     card (dom env) = 3 + 3 \<and>
     fst (createBasic rq (JSNumber (Operation rq READ_FILE)) fs r)
       = Inr (mandatory_part rq env)"
  by (auto simp: entries_simps split: sum.splits)

text \<open>
  C9, as the claim counts the names: \<^verbatim>\<open>request.Key\<close> does not define eleven key names. It
  defines thirteen.
\<close>

theorem key_names_not_eleven: "card (range (Key request)) \<noteq> 11"
  by (simp add: card_range_Key_request)

text \<open>
  C9, amended. The thirteen key names of \<^verbatim>\<open>request.Key\<close> are pairwise distinct. Whenever the
  names of a key table are pairwise distinct, no constructor overwrites a mandatory key
  (the mandatory part of the envelope is the envelope \<^verbatim>\<open>createBasic_\<close> made) and the envelope
  has \<open>3 + n\<close> entries, \<open>n\<close> the number of keys the constructor sets after \<^verbatim>\<open>createBasic_\<close>.
\<close>

theorem key_names_distinct:
  "card (range (Key request)) = 13 \<and> inj (Key request) \<and>
   (inj (Key rq) \<longrightarrow>
     (\<forall>fs r a env. fst (createReadMetadataRequest rq fs r a) = Inr env \<longrightarrow>
        card (dom env) = 3 + 1 \<and>
        fst (createBasic rq (JSNumber (Operation rq READ_METADATA)) fs r)
          = Inr (mandatory_part rq env)) \<and>
     (\<forall>fs r buf env. fst (createReadChunkDoneResponse rq fs r buf) = Inr env \<longrightarrow>
        card (dom env) = 3 + 1 \<and>
        fst (createBasic rq (JSNumber (Operation rq READ_CHUNK_DONE)) fs r)
          = Inr (mandatory_part rq env)) \<and>
     (\<forall>fs r env. fst (createReadChunkErrorResponse rq fs r) = Inr env \<longrightarrow>
        card (dom env) = 3 + 0 \<and>
        fst (createBasic rq (JSNumber (Operation rq READ_CHUNK_ERROR)) fs r)
          = Inr (mandatory_part rq env)) \<and>
     (\<forall>fs env. fst (createCloseVolumeRequest rq fs) = Inr env \<longrightarrow>
        card (dom env) = 3 + 0 \<and>
        fst (createBasic rq (JSNumber (Operation rq CLOSE_VOLUME)) fs (JSNumber (- 1)))
          = Inr (mandatory_part rq env)) \<and>
     (\<forall>fs r p a env. fst (createOpenFileRequest rq fs r p a) = Inr env \<longrightarrow>
        card (dom env) = 3 + 2 \<and>
        fst (createBasic rq (JSNumber (Operation rq OPEN_FILE)) fs r)
          = Inr (mandatory_part rq env)) \<and>
     (\<forall>fs r opn env. fst (createCloseFileRequest rq fs r opn) = Inr env \<longrightarrow>
        card (dom env) = 3 + 1 \<and>
        fst (createBasic rq (JSNumber (Operation rq CLOSE_FILE)) fs r)
          = Inr (mandatory_part rq env)) \<and>
     (\<forall>fs r opn off len env. fst (createReadFileRequest rq fs r opn off len) = Inr env \<longrightarrow>
        card (dom env) = 3 + 3 \<and>
        fst (createBasic rq (JSNumber (Operation rq READ_FILE)) fs r)
          = Inr (mandatory_part rq env)))"
proof (intro conjI impI)
  show "card (range (Key request)) = 13"
    by (rule card_range_Key_request)
  show "inj (Key request)"
    by (rule inj_Key_request)
next
  assume i: "inj (Key rq)"
  show "\<forall>fs r a env. fst (createReadMetadataRequest rq fs r a) = Inr env \<longrightarrow>
        card (dom env) = 3 + 1 \<and>
        fst (createBasic rq (JSNumber (Operation rq READ_METADATA)) fs r)
          = Inr (mandatory_part rq env)"
    by (intro allI impI) (rule entries_createReadMetadataRequest [OF i])
  show "\<forall>fs r buf env. fst (createReadChunkDoneResponse rq fs r buf) = Inr env \<longrightarrow>
        card (dom env) = 3 + 1 \<and>
        fst (createBasic rq (JSNumber (Operation rq READ_CHUNK_DONE)) fs r)
          = Inr (mandatory_part rq env)"
    by (intro allI impI) (rule entries_createReadChunkDoneResponse [OF i])
  show "\<forall>fs r env. fst (createReadChunkErrorResponse rq fs r) = Inr env \<longrightarrow>
        card (dom env) = 3 + 0 \<and>
        fst (createBasic rq (JSNumber (Operation rq READ_CHUNK_ERROR)) fs r)
          = Inr (mandatory_part rq env)"
    by (intro allI impI) (rule entries_createReadChunkErrorResponse [OF i])
  show "\<forall>fs env. fst (createCloseVolumeRequest rq fs) = Inr env \<longrightarrow>
        card (dom env) = 3 + 0 \<and>
        fst (createBasic rq (JSNumber (Operation rq CLOSE_VOLUME)) fs (JSNumber (- 1)))
          = Inr (mandatory_part rq env)"
    by (intro allI impI) (rule entries_createCloseVolumeRequest [OF i])
  show "\<forall>fs r p a env. fst (createOpenFileRequest rq fs r p a) = Inr env \<longrightarrow>
        card (dom env) = 3 + 2 \<and>
        fst (createBasic rq (JSNumber (Operation rq OPEN_FILE)) fs r)
          = Inr (mandatory_part rq env)"
    by (intro allI impI) (rule entries_createOpenFileRequest [OF i])
  show "\<forall>fs r opn env. fst (createCloseFileRequest rq fs r opn) = Inr env \<longrightarrow>
        card (dom env) = 3 + 1 \<and>
        fst (createBasic rq (JSNumber (Operation rq CLOSE_FILE)) fs r)
          = Inr (mandatory_part rq env)"
    by (intro allI impI) (rule entries_createCloseFileRequest [OF i])
  show "\<forall>fs r opn off len env. fst (createReadFileRequest rq fs r opn off len) = Inr env \<longrightarrow>
        card (dom env) = 3 + 3 \<and>
        fst (createBasic rq (JSNumber (Operation rq READ_FILE)) fs r)
          = Inr (mandatory_part rq env)"
    by (intro allI impI) (rule entries_createReadFileRequest [OF i])
qed

theorem key_names_distinct_witness:
  "inj (Key request) \<and>
   (\<exists>env. fst (createReadMetadataRequest request (JSString ''a'') (JSNumber 1) (JSNumber 1000)) = Inr env \<and>
      card (dom env) = 4 \<and>
      fst (createBasic request (JSNumber (Operation request READ_METADATA)) (JSString ''a'') (JSNumber 1))
        = Inr (mandatory_part request env)) \<and>
   (\<exists>env. fst (createReadChunkDoneResponse request (JSString ''a'') (JSNumber 2) (JSArrayBuffer ''PK'')) = Inr env \<and>
      card (dom env) = 4 \<and>
      fst (createBasic request (JSNumber (Operation request READ_CHUNK_DONE)) (JSString ''a'') (JSNumber 2))
        = Inr (mandatory_part request env)) \<and>
   (\<exists>env. fst (createReadChunkErrorResponse request (JSString ''a'') (JSNumber 2)) = Inr env \<and>
      card (dom env) = 3 \<and>
      fst (createBasic request (JSNumber (Operation request READ_CHUNK_ERROR)) (JSString ''a'') (JSNumber 2))
        = Inr (mandatory_part request env)) \<and>
   (\<exists>env. fst (createCloseVolumeRequest request (JSString ''a'')) = Inr env \<and>
      card (dom env) = 3 \<and>
      fst (createBasic request (JSNumber (Operation request CLOSE_VOLUME)) (JSString ''a'') (JSNumber (- 1)))
        = Inr (mandatory_part request env)) \<and>
   (\<exists>env. fst (createOpenFileRequest request (JSString ''a'') (JSNumber 3) (JSString ''/x.txt'') (JSString ''1000'')) = Inr env \<and>
      card (dom env) = 5 \<and>
      fst (createBasic request (JSNumber (Operation request OPEN_FILE)) (JSString ''a'') (JSNumber 3))
        = Inr (mandatory_part request env)) \<and>
   (\<exists>env. fst (createCloseFileRequest request (JSString ''a'') (JSNumber 5) (JSNumber 3)) = Inr env \<and>
      card (dom env) = 4 \<and>
      fst (createBasic request (JSNumber (Operation request CLOSE_FILE)) (JSString ''a'') (JSNumber 5))
        = Inr (mandatory_part request env)) \<and>
   (\<exists>env. fst (createReadFileRequest request (JSString ''a'') (JSNumber 4) (JSNumber 3) (JSNumber 0) (JSNumber 100)) = Inr env \<and>
      card (dom env) = 6 \<and>
      fst (createBasic request (JSNumber (Operation request READ_FILE)) (JSString ''a'') (JSNumber 4))
        = Inr (mandatory_part request env))"
proof -
  note k = key_names_distinct [of request, THEN conjunct2]
  note i = k [THEN conjunct1]
  note m = k [THEN conjunct2, rule_format, OF i]
  have a: "\<exists>env. fst (createReadMetadataRequest request (JSString ''a'') (JSNumber 1) (JSNumber 1000)) = Inr env \<and>
        card (dom env) = 4 \<and>
        fst (createBasic request (JSNumber (Operation request READ_METADATA)) (JSString ''a'') (JSNumber 1))
          = Inr (mandatory_part request env)"
  proof -
    obtain env where env: "fst (createReadMetadataRequest request (JSString ''a'') (JSNumber 1) (JSNumber 1000)) = Inr env"
      by (simp add: createReadMetadataRequest_eq)
    from m [THEN conjunct1, rule_format, OF env] env show ?thesis
      by simp
  qed
  have b: "\<exists>env. fst (createReadChunkDoneResponse request (JSString ''a'') (JSNumber 2) (JSArrayBuffer ''PK'')) = Inr env \<and>
        card (dom env) = 4 \<and>
        fst (createBasic request (JSNumber (Operation request READ_CHUNK_DONE)) (JSString ''a'') (JSNumber 2))
          = Inr (mandatory_part request env)"
  proof -
    obtain env where env: "fst (createReadChunkDoneResponse request (JSString ''a'') (JSNumber 2) (JSArrayBuffer ''PK'')) = Inr env"
      by (simp add: createReadChunkDoneResponse_eq)
    from m [THEN conjunct2, THEN conjunct1, rule_format, OF env] env show ?thesis
      by simp
  qed
  have c: "\<exists>env. fst (createReadChunkErrorResponse request (JSString ''a'') (JSNumber 2)) = Inr env \<and>
        card (dom env) = 3 \<and>
        fst (createBasic request (JSNumber (Operation request READ_CHUNK_ERROR)) (JSString ''a'') (JSNumber 2))
          = Inr (mandatory_part request env)"
  proof -
    obtain env where env: "fst (createReadChunkErrorResponse request (JSString ''a'') (JSNumber 2)) = Inr env"
      by (simp add: createReadChunkErrorResponse_eq)
    from m [THEN conjunct2, THEN conjunct2, THEN conjunct1, rule_format, OF env] env show ?thesis
      by simp
  qed
  have d: "\<exists>env. fst (createCloseVolumeRequest request (JSString ''a'')) = Inr env \<and>
        card (dom env) = 3 \<and>
        fst (createBasic request (JSNumber (Operation request CLOSE_VOLUME)) (JSString ''a'') (JSNumber (- 1)))
          = Inr (mandatory_part request env)"
  proof -
    obtain env where env: "fst (createCloseVolumeRequest request (JSString ''a'')) = Inr env"
      by (simp add: createCloseVolumeRequest_eq)
    from m [THEN conjunct2, THEN conjunct2, THEN conjunct2, THEN conjunct1, rule_format, OF env] env show ?thesis
      by simp
  qed
  have e: "\<exists>env. fst (createOpenFileRequest request (JSString ''a'') (JSNumber 3) (JSString ''/x.txt'') (JSString ''1000'')) = Inr env \<and>
        card (dom env) = 5 \<and>
        fst (createBasic request (JSNumber (Operation request OPEN_FILE)) (JSString ''a'') (JSNumber 3))
          = Inr (mandatory_part request env)"
  proof -
    obtain env where env: "fst (createOpenFileRequest request (JSString ''a'') (JSNumber 3) (JSString ''/x.txt'') (JSString ''1000'')) = Inr env"
      by (simp add: createOpenFileRequest_eq)
    from m [THEN conjunct2, THEN conjunct2, THEN conjunct2, THEN conjunct2, THEN conjunct1, rule_format, OF env] env show ?thesis
      by simp
  qed
  have f: "\<exists>env. fst (createCloseFileRequest request (JSString ''a'') (JSNumber 5) (JSNumber 3)) = Inr env \<and>
        card (dom env) = 4 \<and>
        fst (createBasic request (JSNumber (Operation request CLOSE_FILE)) (JSString ''a'') (JSNumber 5))
          = Inr (mandatory_part request env)"
  proof -
    obtain env where env: "fst (createCloseFileRequest request (JSString ''a'') (JSNumber 5) (JSNumber 3)) = Inr env"
      by (simp add: createCloseFileRequest_eq)
    from m [THEN conjunct2, THEN conjunct2, THEN conjunct2, THEN conjunct2, THEN conjunct2, THEN conjunct1, rule_format, OF env] env show ?thesis
      by simp
  qed
  have g: "\<exists>env. fst (createReadFileRequest request (JSString ''a'') (JSNumber 4) (JSNumber 3) (JSNumber 0) (JSNumber 100)) = Inr env \<and>
        card (dom env) = 6 \<and>
        fst (createBasic request (JSNumber (Operation request READ_FILE)) (JSString ''a'') (JSNumber 4))
          = Inr (mandatory_part request env)"
  proof -
    obtain env where env: "fst (createReadFileRequest request (JSString ''a'') (JSNumber 4) (JSNumber 3) (JSNumber 0) (JSNumber 100)) = Inr env"
      by (simp add: createReadFileRequest_eq)
    from m [THEN conjunct2, THEN conjunct2, THEN conjunct2, THEN conjunct2, THEN conjunct2, THEN conjunct2, rule_format, OF env] env show ?thesis
      by simp
  qed
  from i a b c d e f g show ?thesis
    by (intro conjI)
qed

section \<open>Properties of the codec\<close>

subsection \<open>Reading back a decimal rendering\<close>












subsection \<open>Round trip\<close>







section \<open>Properties of the volume session\<close>

subsection \<open>The archive size\<close>

lemma step_archiveSize:
  "session_step s m out \<Longrightarrow> out = Inr s1 \<Longrightarrow>
     archiveSize s1 = archiveSize s \<and>
     (\<forall>off len. requested_range m = Some (off, len) \<longrightarrow> off + len \<le> archiveSize s)"
  by (induction rule: session_step.induct) auto

lemma run_archiveSize:
  "session_run s0 ms s \<Longrightarrow>
     archiveSize s = archiveSize s0 \<and>
     (\<forall>m\<in>set ms. \<forall>off len. requested_range m = Some (off, len) \<longrightarrow>
        off + len \<le> archiveSize s0)"
proof (induction rule: session_run.induct)
  case (finished s)
  show ?case by simp
next
  case (accepted s m s1 ms s2)
  from step_archiveSize [OF accepted.hyps(1) refl] accepted.IH show ?case by auto
qed

lemma read_file_beyond_archive:
  "lifecycle s = Ready \<Longrightarrow> handle_in s opn Open \<Longrightarrow> archiveSize s < off + len \<Longrightarrow>
     session_step s (ReadFile (session_id s) r opn off len) out \<longleftrightarrow> out = Inl OutOfRange"
  by (auto elim: session_step.cases intro: session_step.read_file_out_of_range)

text \<open>
  C7. Along every sequence of messages a session accepts, the archive size stays what it
  was at the start, and every read-chunk and read-file message of the sequence asks for a
  range with offset + length within it. A read-file beyond the archive size on an Open
  handle of a Ready session has one outcome, OutOfRange, which leaves the session as it
  was.
\<close>

theorem archive_size_bound:
  "(session_run s0 ms s \<longrightarrow>
      archiveSize s = archiveSize s0 \<and>
      (\<forall>m\<in>set ms. \<forall>off len. requested_range m = Some (off, len) \<longrightarrow>
         off + len \<le> archiveSize s0)) \<and>
   (lifecycle s = Ready \<and> handle_in s opn Open \<and> archiveSize s < off + len \<longrightarrow>
      (session_step s (ReadFile (session_id s) r opn off len) out \<longleftrightarrow> out = Inl OutOfRange))"
  using run_archiveSize [of s0 ms s] read_file_beyond_archive [of s opn off len r out]
  by blast

subsection \<open>The chunk gate\<close>

lemma step_gate:
  "session_step s m out \<Longrightarrow> out = Inr s1 \<Longrightarrow> gate_ok s n \<Longrightarrow> gate_ok s1 (after_message n m)"
  by (induction rule: session_step.induct) (auto simp: gate_ok_def)

lemma run_gate:
  "session_run s ms s1 \<Longrightarrow> gate_ok s n \<Longrightarrow> gate_ok s1 (foldl after_message n ms)"
proof (induction arbitrary: n rule: session_run.induct)
  case (finished s)
  then show ?case by simp
next
  case (accepted s m s1 ms s2)
  from step_gate [OF accepted.hyps(1) refl accepted.prems]
  have "gate_ok s1 (after_message n m)" .
  from accepted.IH [OF this] show ?case by simp
qed

lemma gate_ok_create_session: "gate_ok (create_session fs a) 0"
  by (simp add: gate_ok_def create_session_def)

lemma second_pull:
  "lifecycle s \<noteq> Closed \<Longrightarrow> pendingChunkRequest s = Some p \<Longrightarrow>
     session_step s (ReadChunk (session_id s) r off len) out \<longleftrightarrow> out = Inl ProtocolViolation"
  by (auto elim: session_step.cases intro: session_step.pull_second)

text \<open>
  C8. After every sequence of messages a new session accepts, at most one read-chunk pull
  is unanswered; and while one is, a further read-chunk pull has one outcome,
  ProtocolViolation, which leaves the session as it was.
\<close>

theorem one_outstanding_pull:
  "session_run (create_session fs a) ms s \<Longrightarrow>
     outstanding_pulls ms \<le> 1 \<and>
     (outstanding_pulls ms = 1 \<longrightarrow>
        (\<forall>r off len out.
           session_step s (ReadChunk (session_id s) r off len) out \<longleftrightarrow>
             out = Inl ProtocolViolation))"
proof -
  assume "session_run (create_session fs a) ms s"
  from run_gate [OF this gate_ok_create_session]
  have g: "gate_ok s (outstanding_pulls ms)"
    by (simp add: outstanding_pulls_def)
  then have "outstanding_pulls ms \<le> 1"
    by (simp add: gate_ok_def)
  moreover have "\<forall>r off len out.
      session_step s (ReadChunk (session_id s) r off len) out \<longleftrightarrow> out = Inl ProtocolViolation"
    if "outstanding_pulls ms = 1"
  proof -
    from g that obtain p where "pendingChunkRequest s = Some p" "lifecycle s \<noteq> Closed"
      by (auto simp: gate_ok_def split: if_splits)
    then show ?thesis
      by (simp add: second_pull)
  qed
  ultimately show ?thesis by blast
qed

subsection \<open>The scenarios of the specification\<close>

lemma scenario_metadata:
  "session_run (create_session ''a'' 1000)
     [ReadChunk ''a'' 2 0 512, ReadChunkDone ''a'' 2 ''PK'', ReadMetadataDone ''a'' 1 []]
     \<lparr>session_id = ''a'', archiveSize = 1000, metadataLoaded = True, openHandles = Map.empty,
      pendingChunkRequest = None, lifecycle = Ready\<rparr>"
proof -
  let ?s0 = "create_session ''a'' 1000"
  let ?s1 = "?s0\<lparr>pendingChunkRequest := Some 2\<rparr>"
  let ?s3 = "?s0\<lparr>metadataLoaded := True, lifecycle := Ready\<rparr>"
  have 1: "session_step ?s0 (ReadChunk ''a'' 2 0 512) (Inr ?s1)"
    using session_step.pull [of ?s0 0 512 2] by (simp add: create_session_def)
  have 2: "session_step ?s1 (ReadChunkDone ''a'' 2 ''PK'') (Inr ?s0)"
    using session_step.pull_done [of ?s1 2 "''PK''"] by (simp add: create_session_def)
  have 3: "session_step ?s0 (ReadMetadataDone ''a'' 1 []) (Inr ?s3)"
    using session_step.metadata_done [of ?s0 1 "[]"] by (simp add: create_session_def)
  have "session_run ?s0
     [ReadChunk ''a'' 2 0 512, ReadChunkDone ''a'' 2 ''PK'', ReadMetadataDone ''a'' 1 []] ?s3"
    by (intro session_run.accepted [OF 1] session_run.accepted [OF 2]
        session_run.accepted [OF 3] session_run.finished)
  then show ?thesis
    by (simp add: create_session_def)
qed

lemma scenario_file:
  "session_run
     \<lparr>session_id = ''a'', archiveSize = 1000, metadataLoaded = True, openHandles = Map.empty,
      pendingChunkRequest = None, lifecycle = Ready\<rparr>
     [OpenFile ''a'' 3 ''/x.txt'' 1000, OpenFileDone ''a'' 3, ReadFile ''a'' 4 3 0 100]
     \<lparr>session_id = ''a'', archiveSize = 1000, metadataLoaded = True,
      openHandles = [3 \<mapsto> \<lparr>openRequestId = 3, path = ''/x.txt'', state = Open\<rparr>],
      pendingChunkRequest = None, lifecycle = Ready\<rparr>"
proof -
  let ?h = "\<lparr>openRequestId = 3, path = ''/x.txt'', state = Opening\<rparr>"
  let ?s3 = "\<lparr>session_id = ''a'', archiveSize = 1000, metadataLoaded = True,
      openHandles = Map.empty, pendingChunkRequest = None, lifecycle = Ready\<rparr>"
  let ?s4 = "?s3\<lparr>openHandles := [3 \<mapsto> ?h]\<rparr>"
  let ?s5 = "?s3\<lparr>openHandles := [3 \<mapsto> ?h\<lparr>state := Open\<rparr>]\<rparr>"
  have 4: "session_step ?s3 (OpenFile ''a'' 3 ''/x.txt'' 1000) (Inr ?s4)"
    using session_step.open_file [of ?s3 3 "''/x.txt''" 1000] by simp
  have 5: "session_step ?s4 (OpenFileDone ''a'' 3) (Inr ?s5)"
    using session_step.open_file_done [of ?s4 3 ?h] by simp
  have 6: "session_step ?s5 (ReadFile ''a'' 4 3 0 100) (Inr ?s5)"
    using session_step.read_file [of ?s5 3 0 100 4] by (simp add: handle_in_def)
  have "session_run ?s3
     [OpenFile ''a'' 3 ''/x.txt'' 1000, OpenFileDone ''a'' 3, ReadFile ''a'' 4 3 0 100] ?s5"
    by (intro session_run.accepted [OF 4] session_run.accepted [OF 5]
        session_run.accepted [OF 6] session_run.finished)
  then show ?thesis
    by simp
qed

lemma session_run_append:
  "session_run s ms s1 \<Longrightarrow> session_run s1 ns s2 \<Longrightarrow> session_run s (ms @ ns) s2"
  by (induction rule: session_run.induct) (auto intro: session_run.accepted)

theorem archive_size_bound_witness:
  "session_run (create_session ''a'' 1000)
     [ReadChunk ''a'' 2 0 512, ReadChunkDone ''a'' 2 ''PK'', ReadMetadataDone ''a'' 1 [],
      OpenFile ''a'' 3 ''/x.txt'' 1000, OpenFileDone ''a'' 3, ReadFile ''a'' 4 3 0 100]
     \<lparr>session_id = ''a'', archiveSize = 1000, metadataLoaded = True,
      openHandles = [3 \<mapsto> \<lparr>openRequestId = 3, path = ''/x.txt'', state = Open\<rparr>],
      pendingChunkRequest = None, lifecycle = Ready\<rparr> \<and>
   archiveSize (create_session ''a'' 1000) = 1000 \<and>
   requested_range (ReadChunk ''a'' 2 0 512) = Some (0, 512) \<and> (0::nat) + 512 \<le> 1000 \<and>
   requested_range (ReadFile ''a'' 4 3 0 100) = Some (0, 100) \<and> (0::nat) + 100 \<le> 1000 \<and>
   session_step
     \<lparr>session_id = ''a'', archiveSize = 1000, metadataLoaded = True,
      openHandles = [3 \<mapsto> \<lparr>openRequestId = 3, path = ''/x.txt'', state = Open\<rparr>],
      pendingChunkRequest = None, lifecycle = Ready\<rparr>
     (ReadFile ''a'' 7 3 950 100) (Inl OutOfRange) \<and>
   \<not> session_step
     \<lparr>session_id = ''a'', archiveSize = 1000, metadataLoaded = True,
      openHandles = [3 \<mapsto> \<lparr>openRequestId = 3, path = ''/x.txt'', state = Open\<rparr>],
      pendingChunkRequest = None, lifecycle = Ready\<rparr>
     (ReadFile ''a'' 7 3 950 100)
     (Inr \<lparr>session_id = ''a'', archiveSize = 1000, metadataLoaded = True,
      openHandles = [3 \<mapsto> \<lparr>openRequestId = 3, path = ''/x.txt'', state = Open\<rparr>],
      pendingChunkRequest = None, lifecycle = Ready\<rparr>)"
proof -
  let ?s = "\<lparr>session_id = ''a'', archiveSize = 1000, metadataLoaded = True,
      openHandles = [3 \<mapsto> \<lparr>openRequestId = 3, path = ''/x.txt'', state = Open\<rparr>],
      pendingChunkRequest = None, lifecycle = Ready\<rparr>"
  let ?ms = "[ReadChunk ''a'' 2 0 512, ReadChunkDone ''a'' 2 ''PK'', ReadMetadataDone ''a'' 1 [],
      OpenFile ''a'' 3 ''/x.txt'' 1000, OpenFileDone ''a'' 3, ReadFile ''a'' 4 3 0 100]"
  have run: "session_run (create_session ''a'' 1000) ?ms ?s"
    using session_run_append [OF scenario_metadata scenario_file] by simp
  note b = archive_size_bound [of "create_session ''a'' 1000" ?ms ?s 3 950 100 7]
  from b [THEN conjunct1, rule_format, OF run]
  have size: "archiveSize ?s = archiveSize (create_session ''a'' 1000)"
    and range: "\<forall>m\<in>set ?ms. \<forall>off len. requested_range m = Some (off, len) \<longrightarrow>
         off + len \<le> archiveSize (create_session ''a'' 1000)"
    by blast+
  from size have a: "archiveSize (create_session ''a'' 1000) = 1000"
    by simp
  from range a have c: "(0::nat) + 512 \<le> 1000" "(0::nat) + 100 \<le> 1000"
    by simp_all
  have h: "lifecycle ?s = Ready \<and> handle_in ?s 3 Open \<and> archiveSize ?s < 950 + 100"
    by (simp add: handle_in_def)
  from b [THEN conjunct2, rule_format, OF h, of "Inl OutOfRange"]
  have d: "session_step ?s (ReadFile ''a'' 7 3 950 100) (Inl OutOfRange)"
    by simp
  from b [THEN conjunct2, rule_format, OF h, of "Inr ?s"]
  have e: "\<not> session_step ?s (ReadFile ''a'' 7 3 950 100) (Inr ?s)"
    by simp
  from run a c d e show ?thesis
    by simp
qed

theorem one_outstanding_pull_witness:
  "session_run (create_session ''a'' 1000) [ReadChunk ''a'' 2 0 512]
     ((create_session ''a'' 1000)\<lparr>pendingChunkRequest := Some 2\<rparr>) \<and>
   outstanding_pulls [ReadChunk ''a'' 2 0 512] = 1 \<and>
   session_step ((create_session ''a'' 1000)\<lparr>pendingChunkRequest := Some 2\<rparr>)
     (ReadChunk ''a'' 3 512 100) (Inl ProtocolViolation) \<and>
   \<not> session_step ((create_session ''a'' 1000)\<lparr>pendingChunkRequest := Some 2\<rparr>)
     (ReadChunk ''a'' 3 512 100)
     (Inr ((create_session ''a'' 1000)\<lparr>pendingChunkRequest := Some 3\<rparr>)) \<and>
   outstanding_pulls
     [ReadChunk ''a'' 2 0 512, ReadChunkDone ''a'' 2 ''PK'', ReadMetadataDone ''a'' 1 []] = 0"
proof -
  let ?s0 = "create_session ''a'' 1000"
  let ?s1 = "?s0\<lparr>pendingChunkRequest := Some 2\<rparr>"
  have step: "session_step ?s0 (ReadChunk ''a'' 2 0 512) (Inr ?s1)"
    using session_step.pull [of ?s0 0 512 2] by (simp add: create_session_def)
  have run: "session_run ?s0 [ReadChunk ''a'' 2 0 512] ?s1"
    by (rule session_run.accepted [OF step session_run.finished])
  have one: "outstanding_pulls [ReadChunk ''a'' 2 0 512] = 1"
    by (simp add: outstanding_pulls_def)
  have id: "session_id ?s1 = ''a''"
    by (simp add: create_session_def)
  note g = one_outstanding_pull [OF run, THEN conjunct2, rule_format, OF one]
  from g [of 3 512 100 "Inl ProtocolViolation"] id
  have a: "session_step ?s1 (ReadChunk ''a'' 3 512 100) (Inl ProtocolViolation)"
    by simp
  from g [of 3 512 100 "Inr (?s0\<lparr>pendingChunkRequest := Some 3\<rparr>)"] id
  have b: "\<not> session_step ?s1 (ReadChunk ''a'' 3 512 100)
      (Inr (?s0\<lparr>pendingChunkRequest := Some 3\<rparr>))"
    by simp
  have c: "outstanding_pulls
     [ReadChunk ''a'' 2 0 512, ReadChunkDone ''a'' 2 ''PK'', ReadMetadataDone ''a'' 1 []] = 0"
    by (simp add: outstanding_pulls_def)
  from run one a b c show ?thesis
    by (intro conjI)
qed

end
